theory Spec2Isabelle
  imports Main
begin

section \<open>JavaScript values\<close>

text \<open>
  Strings are sequences of UTF-8 code units, so the Chinese labels of the source are
  written out byte by byte. Concatenation, \<^verbatim>\<open>endsWith\<close> with an ASCII
  argument and the test for the empty string read the same on code units as on
  JavaScript's strings.

  A response body parsed by \<^verbatim>\<open>response.json()\<close> has the TypeScript type
  \<^verbatim>\<open>any\<close>: it is a JSON value. A number is kept as the text that JavaScript's
  conversion to string gives for it, which is all the client ever does with one; it is
  falsy exactly when that text is \<^verbatim>\<open>0\<close>.
\<close>

datatype json =
    JNull
  | JBool bool
  | JNum string
  | JStr string
  | JArr "json list"
  | JObj "(string \<times> json) list"

datatype jsval = Undefined | JV json

fun truthy_json :: "json \<Rightarrow> bool" where
  "truthy_json JNull = False"
| "truthy_json (JBool b) = b"
| "truthy_json (JNum n) = (n \<noteq> ''0'')"
| "truthy_json (JStr s) = (s \<noteq> [])"
| "truthy_json (JArr xs) = True"
| "truthy_json (JObj kvs) = True"

fun truthy :: "jsval \<Rightarrow> bool" where
  "truthy Undefined = False"
| "truthy (JV j) = truthy_json j"

fun join_with :: "string \<Rightarrow> string list \<Rightarrow> string" where
  "join_with sep [] = []"
| "join_with sep [x] = x"
| "join_with sep (x # y # ys) = x @ sep @ join_with sep (y # ys)"

text \<open>Conversion to string, as a template literal and \<^verbatim>\<open>URLSearchParams\<close> do it.
  An array joins its elements with commas, a \<^verbatim>\<open>null\<close> element giving the empty
  string.\<close>

fun json_to_string :: "json \<Rightarrow> string" where
  "json_to_string JNull = ''null''"
| "json_to_string (JBool b) = (if b then ''true'' else ''false'')"
| "json_to_string (JNum n) = n"
| "json_to_string (JStr s) = s"
| "json_to_string (JArr xs) =
     join_with '','' (map (\<lambda>x. if x = JNull then [] else json_to_string x) xs)"
| "json_to_string (JObj kvs) = ''[object Object]''"

fun to_string :: "jsval \<Rightarrow> string" where
  "to_string Undefined = ''undefined''"
| "to_string (JV j) = json_to_string j"

text \<open>An optional string field (\<^verbatim>\<open>x?: string\<close>) as a JavaScript value.\<close>

fun of_opt :: "string option \<Rightarrow> jsval" where
  "of_opt None = Undefined"
| "of_opt (Some s) = JV (JStr s)"

text \<open>\<^verbatim>\<open>a || b\<close>\<close>

definition js_or :: "jsval \<Rightarrow> jsval \<Rightarrow> jsval" where
  "js_or a b = (if truthy a then a else b)"

text \<open>\<^verbatim>\<open>s.endsWith(suf)\<close>\<close>

definition endsWith :: "string \<Rightarrow> string \<Rightarrow> bool" where
  "endsWith s suf = (length suf \<le> length s \<and> drop (length s - length suf) s = suf)"

text \<open>\<^verbatim>\<open>s.replace(/\/$/, '')\<close>: the pattern matches one slash at the end of the
  string.\<close>

definition strip_trailing_slash :: "string \<Rightarrow> string" where
  "strip_trailing_slash s = (if s \<noteq> [] \<and> last s = CHR ''/'' then butlast s else s)"

section \<open>Configuration and session\<close>

record EmbyConfig =
  ServerURL :: string
  ApiKey :: "string option"
  Username :: "string option"
  Password :: "string option"
  UserId :: "string option"
  AuthToken :: "string option"

text \<open>The private fields of \<^verbatim>\<open>EmbyClient\<close>. \<^verbatim>\<open>authToken\<close> and
  \<^verbatim>\<open>userId\<close> are assigned from a parsed response body, so they hold JavaScript
  values.\<close>

record session =
  serverUrl :: string
  apiKey :: "string option"
  userId :: jsval
  authToken :: jsval
  username :: "string option"
  password :: "string option"

text \<open>The first four lines of the constructor.\<close>

definition normalizeServerUrl :: "string \<Rightarrow> string" where
  "normalizeServerUrl url =
     (let s = strip_trailing_slash url
      in if \<not> endsWith s ''/emby'' then s @ ''/emby'' else s)"

definition EmbyClient :: "EmbyConfig \<Rightarrow> session" where
  "EmbyClient config =
     \<lparr> serverUrl = normalizeServerUrl (ServerURL config),
       apiKey = ApiKey config,
       userId = of_opt (UserId config),
       authToken = of_opt (AuthToken config),
       username = Username config,
       password = Password config \<rparr>"

section \<open>Numbers and query strings\<close>

text \<open>\<^verbatim>\<open>${response.status}\<close>: the status of a response is an unsigned short, and
  JavaScript prints an integer of that size digit by digit.\<close>

fun show_nat :: "nat \<Rightarrow> string" where
  "show_nat n =
     (if n < 10 then [''0123456789'' ! n]
      else show_nat (n div 10) @ [''0123456789'' ! (n mod 10)])"

declare show_nat.simps [simp del]

text \<open>
  A parameter or field of type \<^verbatim>\<open>number\<close> is kept, like a number of a parsed body,
  as the text that JavaScript's conversion to string gives for it: \<^verbatim>\<open>n.toString()\<close>,
  \<^verbatim>\<open>${n}\<close> and \<^verbatim>\<open>URLSearchParams\<close> all give that text, whether the number is
  \<^verbatim>\<open>300\<close>, \<^verbatim>\<open>0.5\<close> or \<^verbatim>\<open>1e+21\<close>, and the client does nothing else with a
  number but test it. A number is falsy when it is zero or \<^verbatim>\<open>NaN\<close>; the text of
  either zero is \<^verbatim>\<open>0\<close>.
\<close>

datatype number = Number string

fun number_text :: "number \<Rightarrow> string" where
  "number_text (Number t) = t"

fun number_truthy :: "number \<Rightarrow> bool" where
  "number_truthy (Number t) = (t \<noteq> ''0'' \<and> t \<noteq> ''NaN'')"

text \<open>The serializer of \<^verbatim>\<open>application/x-www-form-urlencoded\<close>, which
  \<^verbatim>\<open>URLSearchParams.toString()\<close> applies to every name and value: ASCII letters
  and digits and \<^verbatim>\<open>* - . _\<close> stay, a space becomes \<^verbatim>\<open>+\<close>, every other code
  unit becomes \<^verbatim>\<open>%XX\<close>.\<close>

definition hex_digit :: "nat \<Rightarrow> char" where
  "hex_digit n = ''0123456789ABCDEF'' ! (n mod 16)"

definition unreserved :: "char \<Rightarrow> bool" where
  "unreserved c =
     (let n = (of_char c :: nat)
      in (48 \<le> n \<and> n \<le> 57) \<or> (65 \<le> n \<and> n \<le> 90) \<or> (97 \<le> n \<and> n \<le> 122)
         \<or> c = CHR ''*'' \<or> c = CHR ''-'' \<or> c = CHR ''.'' \<or> c = CHR ''_'')"

definition encode_char :: "char \<Rightarrow> string" where
  "encode_char c =
     (if unreserved c then [c]
      else if c = CHR '' '' then ''+''
      else [CHR ''%'', hex_digit (of_char c div 16), hex_digit (of_char c mod 16)])"

definition urlencode :: "string \<Rightarrow> string" where
  "urlencode s = concat (map encode_char s)"

text \<open>A \<^verbatim>\<open>URLSearchParams\<close> object is its list of name-value pairs.
  \<^verbatim>\<open>set\<close> overwrites the first pair of that name and removes the others, or
  appends a new pair.\<close>

type_synonym search_params = "(string \<times> string) list"

fun sp_set :: "string \<Rightarrow> string \<Rightarrow> search_params \<Rightarrow> search_params" where
  "sp_set k v [] = [(k, v)]"
| "sp_set k v ((k', v') # ps) =
     (if k' = k then (k, v) # filter (\<lambda>kv. fst kv \<noteq> k) ps
      else (k', v') # sp_set k v ps)"

definition sp_toString :: "search_params \<Rightarrow> string" where
  "sp_toString ps = join_with ''&'' (map (\<lambda>kv. urlencode (fst kv) @ ''='' @ urlencode (snd kv)) ps)"

text \<open>\<^verbatim>\<open>if (v) sp.set(k, v)\<close> for an optional string, and
  \<^verbatim>\<open>if (v !== undefined) sp.set(k, v.toString())\<close>.\<close>

definition set_if_truthy :: "string \<Rightarrow> string option \<Rightarrow> search_params \<Rightarrow> search_params" where
  "set_if_truthy k v ps = (if truthy (of_opt v) then sp_set k (to_string (of_opt v)) ps else ps)"

definition set_if_defined :: "string \<Rightarrow> string option \<Rightarrow> search_params \<Rightarrow> search_params" where
  "set_if_defined k v ps = (case v of None \<Rightarrow> ps | Some x \<Rightarrow> sp_set k x ps)"

section \<open>The transport\<close>

text \<open>
  \<^verbatim>\<open>fetch\<close> either rejects or resolves to a response. A response is its status,
  its body as \<^verbatim>\<open>text()\<close> gives it, and what \<^verbatim>\<open>json()\<close> gives for it:
  \<open>None\<close> when the body is not JSON, where \<^verbatim>\<open>json()\<close> rejects with a
  SyntaxError. The server is any function of the requests made so far and the present
  request; the requests made so far are the log, to which every call of \<open>fetch\<close>
  adds its request.
\<close>

datatype http_method = GET | POST

record request =
  req_method :: http_method
  req_url :: string
  req_headers :: "(string \<times> string) list"
  req_body :: "string option"

record response =
  status :: nat
  body_text :: string
  body_json :: "json option"

datatype outcome = Rejected string | Response response

type_synonym server = "request list \<Rightarrow> request \<Rightarrow> outcome"

text \<open>\<^verbatim>\<open>response.ok\<close>\<close>

definition ok :: "response \<Rightarrow> bool" where
  "ok r = (200 \<le> status r \<and> status r \<le> 299)"

datatype error =
    Error string
  | TypeError
  | SyntaxError
  | FetchRejected string

type_synonym 'a result = "(error + 'a) \<times> session \<times> request list"

definition fetch :: "server \<Rightarrow> request \<Rightarrow> request list \<Rightarrow> outcome \<times> request list" where
  "fetch srv rq log = (srv log rq, log @ [rq])"

text \<open>\<^verbatim>\<open>fetch(url)\<close>\<close>

definition get_request :: "string \<Rightarrow> request" where
  "get_request u = \<lparr> req_method = GET, req_url = u, req_headers = [], req_body = None \<rparr>"

text \<open>
  Reading a property of a parsed body. \<^verbatim>\<open>JSON.parse\<close> keeps the last of several
  members of one name. Reading a property of \<^verbatim>\<open>null\<close> or \<^verbatim>\<open>undefined\<close> throws
  a TypeError. The client reads \<^verbatim>\<open>AccessToken\<close>, \<^verbatim>\<open>User\<close>, \<^verbatim>\<open>Id\<close> and
  \<^verbatim>\<open>Items\<close> only, which no string, number, boolean or array has.
\<close>

fun get_prop :: "jsval \<Rightarrow> string \<Rightarrow> error + jsval" where
  "get_prop Undefined k = Inl TypeError"
| "get_prop (JV JNull) k = Inl TypeError"
| "get_prop (JV (JObj kvs)) k =
     Inr (case map_of (rev kvs) k of None \<Rightarrow> Undefined | Some v \<Rightarrow> JV v)"
| "get_prop (JV j) k = Inr Undefined"

section \<open>Authentication\<close>

definition label_authenticate :: string where
  "label_authenticate =
     [CHR 0x45, CHR 0x6D, CHR 0x62, CHR 0x79, CHR 0x20, CHR 0xE8, CHR 0xAE, CHR 0xA4,
      CHR 0xE8, CHR 0xAF, CHR 0x81, CHR 0xE5, CHR 0xA4, CHR 0xB1, CHR 0xE8, CHR 0xB4,
      CHR 0xA5]"

text \<open>The message of \<^verbatim>\<open>`<label> (${response.status}): ${errorText}`\<close>\<close>

definition status_message :: "string \<Rightarrow> response \<Rightarrow> string" where
  "status_message label r = label @ '' ('' @ show_nat (status r) @ ''): '' @ body_text r"

definition login_url :: "session \<Rightarrow> string" where
  "login_url s = serverUrl s @ ''/Users/AuthenticateByName''"

definition login_request :: "session \<Rightarrow> string \<Rightarrow> string \<Rightarrow> request" where
  \<open>login_request s u p =
     \<lparr> req_method = POST,
       req_url = login_url s,
       req_headers =
         [(''Content-Type'', ''application/x-www-form-urlencoded''),
          (''X-Emby-Authorization'',
           ''MediaBrowser Client="LunaTV", Device="Web", DeviceId="lunatv-web", Version="1.0.0"'')],
       req_body = Some (sp_toString [(''Username'', u), (''Pw'', p)]) \<rparr>\<close>

text \<open>The two assignments
  \<^verbatim>\<open>this.authToken = data.AccessToken; this.userId = data.User.Id;\<close>
  which \<^verbatim>\<open>authenticate\<close> makes and each of its callers repeats on the returned
  value. The first has taken place when the second throws.\<close>

definition store_auth :: "json \<Rightarrow> session \<Rightarrow> (error + unit) \<times> session" where
  "store_auth d s =
     (case get_prop (JV d) ''AccessToken'' of
        Inl e \<Rightarrow> (Inl e, s)
      | Inr tok \<Rightarrow>
          (let s1 = s\<lparr>authToken := tok\<rparr>
           in case get_prop (JV d) ''User'' of
                Inl e \<Rightarrow> (Inl e, s1)
              | Inr usr \<Rightarrow>
                  (case get_prop usr ''Id'' of
                     Inl e \<Rightarrow> (Inl e, s1)
                   | Inr uid \<Rightarrow> (Inr (), s1\<lparr>userId := uid\<rparr>))))"

definition authenticate :: "server \<Rightarrow> string \<Rightarrow> string \<Rightarrow> session \<Rightarrow> request list \<Rightarrow> json result" where
  "authenticate srv u p s log =
     (case fetch srv (login_request s u p) log of
        (Rejected m, log1) \<Rightarrow> (Inl (FetchRejected m), s, log1)
      | (Response r, log1) \<Rightarrow>
          if \<not> ok r then (Inl (Error (status_message label_authenticate r)), s, log1)
          else
            (case body_json r of
               None \<Rightarrow> (Inl SyntaxError, s, log1)
             | Some d \<Rightarrow>
                 (case store_auth d s of
                    (Inl e, s1) \<Rightarrow> (Inl e, s1, log1)
                  | (Inr _, s1) \<Rightarrow> (Inr d, s1, log1))))"

text \<open>\<^verbatim>\<open>this.username && this.password\<close>, with the two strings when it holds.\<close>

definition credentials :: "session \<Rightarrow> (string \<times> string) option" where
  "credentials s =
     (case (username s, password s) of
        (Some u, Some p) \<Rightarrow> if u \<noteq> [] \<and> p \<noteq> [] then Some (u, p) else None
      | _ \<Rightarrow> None)"

text \<open>The three lines
  \<^verbatim>\<open>const authResult = await this.authenticate(this.username, this.password);
  this.authToken = authResult.AccessToken; this.userId = authResult.User.Id;\<close>
  of \<^verbatim>\<open>ensureAuthenticated\<close> and of every retry.\<close>

definition login_and_store :: "server \<Rightarrow> string \<Rightarrow> string \<Rightarrow> session \<Rightarrow> request list \<Rightarrow> unit result" where
  "login_and_store srv u p s log =
     (case authenticate srv u p s log of
        (Inl e, s1, log1) \<Rightarrow> (Inl e, s1, log1)
      | (Inr authResult, s1, log1) \<Rightarrow>
          (case store_auth authResult s1 of
             (Inl e, s2) \<Rightarrow> (Inl e, s2, log1)
           | (Inr _, s2) \<Rightarrow> (Inr (), s2, log1)))"

definition ensureAuthenticated :: "server \<Rightarrow> session \<Rightarrow> request list \<Rightarrow> unit result" where
  "ensureAuthenticated srv s log =
     (if truthy (of_opt (apiKey s)) then (Inr (), s, log)
      else if truthy (authToken s) then (Inr (), s, log)
      else
        (case credentials s of
           Some (u, p) \<Rightarrow> login_and_store srv u p s log
         | None \<Rightarrow> (Inr (), s, log)))"

section \<open>Data operations\<close>

text \<open>The messages of the errors the data operations throw, in UTF-8.\<close>

definition label_no_user_id :: string where
  "label_no_user_id =
     [CHR 0xE6, CHR 0x9C, CHR 0xAA, CHR 0xE9, CHR 0x85, CHR 0x8D, CHR 0xE7, CHR 0xBD,
      CHR 0xAE, CHR 0x20, CHR 0x45, CHR 0x6D, CHR 0x62, CHR 0x79, CHR 0x20, CHR 0xE7,
      CHR 0x94, CHR 0xA8, CHR 0xE6, CHR 0x88, CHR 0xB7, CHR 0x20, CHR 0x49, CHR 0x44,
      CHR 0xEF, CHR 0xBC, CHR 0x8C, CHR 0xE8, CHR 0xAF, CHR 0xB7, CHR 0xE5, CHR 0x9C,
      CHR 0xA8, CHR 0xE7, CHR 0xAE, CHR 0xA1, CHR 0xE7, CHR 0x90, CHR 0x86, CHR 0xE9,
      CHR 0x9D, CHR 0xA2, CHR 0xE6, CHR 0x9D, CHR 0xBF, CHR 0xE9, CHR 0x87, CHR 0x8D,
      CHR 0xE6, CHR 0x96, CHR 0xB0, CHR 0xE4, CHR 0xBF, CHR 0x9D, CHR 0xE5, CHR 0xAD,
      CHR 0x98, CHR 0x20, CHR 0x45, CHR 0x6D, CHR 0x62, CHR 0x79, CHR 0x20, CHR 0xE9,
      CHR 0x85, CHR 0x8D, CHR 0xE7, CHR 0xBD, CHR 0xAE]"

definition label_getCurrentUser :: string where
  "label_getCurrentUser =
     [CHR 0xE8, CHR 0x8E, CHR 0xB7, CHR 0xE5, CHR 0x8F, CHR 0x96, CHR 0xE5, CHR 0xBD,
      CHR 0x93, CHR 0xE5, CHR 0x89, CHR 0x8D, CHR 0xE7, CHR 0x94, CHR 0xA8, CHR 0xE6,
      CHR 0x88, CHR 0xB7, CHR 0xE4, CHR 0xBF, CHR 0xA1, CHR 0xE6, CHR 0x81, CHR 0xAF,
      CHR 0xE5, CHR 0xA4, CHR 0xB1, CHR 0xE8, CHR 0xB4, CHR 0xA5]"

definition label_getItems :: string where
  "label_getItems =
     [CHR 0xE8, CHR 0x8E, CHR 0xB7, CHR 0xE5, CHR 0x8F, CHR 0x96, CHR 0x20, CHR 0x45,
      CHR 0x6D, CHR 0x62, CHR 0x79, CHR 0x20, CHR 0xE5, CHR 0xAA, CHR 0x92, CHR 0xE4,
      CHR 0xBD, CHR 0x93, CHR 0xE5, CHR 0x88, CHR 0x97, CHR 0xE8, CHR 0xA1, CHR 0xA8,
      CHR 0xE5, CHR 0xA4, CHR 0xB1, CHR 0xE8, CHR 0xB4, CHR 0xA5]"

definition label_getItem :: string where
  "label_getItem =
     [CHR 0xE8, CHR 0x8E, CHR 0xB7, CHR 0xE5, CHR 0x8F, CHR 0x96, CHR 0x20, CHR 0x45,
      CHR 0x6D, CHR 0x62, CHR 0x79, CHR 0x20, CHR 0xE5, CHR 0xAA, CHR 0x92, CHR 0xE4,
      CHR 0xBD, CHR 0x93, CHR 0xE8, CHR 0xAF, CHR 0xA6, CHR 0xE6, CHR 0x83, CHR 0x85,
      CHR 0xE5, CHR 0xA4, CHR 0xB1, CHR 0xE8, CHR 0xB4, CHR 0xA5]"

definition label_getSeasons :: string where
  "label_getSeasons =
     [CHR 0xE8, CHR 0x8E, CHR 0xB7, CHR 0xE5, CHR 0x8F, CHR 0x96, CHR 0x20, CHR 0x45,
      CHR 0x6D, CHR 0x62, CHR 0x79, CHR 0x20, CHR 0xE5, CHR 0xAD, CHR 0xA3, CHR 0xE5,
      CHR 0x88, CHR 0x97, CHR 0xE8, CHR 0xA1, CHR 0xA8, CHR 0xE5, CHR 0xA4, CHR 0xB1,
      CHR 0xE8, CHR 0xB4, CHR 0xA5]"

definition label_getEpisodes :: string where
  "label_getEpisodes =
     [CHR 0xE8, CHR 0x8E, CHR 0xB7, CHR 0xE5, CHR 0x8F, CHR 0x96, CHR 0x20, CHR 0x45,
      CHR 0x6D, CHR 0x62, CHR 0x79, CHR 0x20, CHR 0xE9, CHR 0x9B, CHR 0x86, CHR 0xE5,
      CHR 0x88, CHR 0x97, CHR 0xE8, CHR 0xA1, CHR 0xA8, CHR 0xE5, CHR 0xA4, CHR 0xB1,
      CHR 0xE8, CHR 0xB4, CHR 0xA5]"

text \<open>\<^verbatim>\<open>getHeaders\<close>\<close>

definition getHeaders :: "session \<Rightarrow> (string \<times> string) list" where
  "getHeaders s =
     (let headers = [(''Content-Type'', ''application/json'')]
      in if truthy (of_opt (apiKey s)) then headers @ [(''X-Emby-Token'', to_string (of_opt (apiKey s)))]
         else if truthy (authToken s) then headers @ [(''X-Emby-Token'', to_string (authToken s))]
         else headers)"

text \<open>\<^verbatim>\<open>this.apiKey || this.authToken\<close>\<close>

definition current_token :: "session \<Rightarrow> jsval" where
  "current_token s = js_or (of_opt (apiKey s)) (authToken s)"

text \<open>The condition of every retry,
  \<^verbatim>\<open>response.status === 401 && this.username && this.password && !this.apiKey\<close>,
  with the user name and the password when it holds.\<close>

definition reauth_credentials :: "response \<Rightarrow> session \<Rightarrow> (string \<times> string) option" where
  "reauth_credentials r s =
     (if status r = 401 \<and> \<not> truthy (of_opt (apiKey s)) then credentials s else None)"

text \<open>\<^verbatim>\<open>if (!r.ok) throw new Error(msg); return await r.json();\<close>\<close>

definition json_or_throw :: "string \<Rightarrow> response \<Rightarrow> error + jsval" where
  "json_or_throw msg r =
     (if \<not> ok r then Inl (Error msg)
      else case body_json r of None \<Rightarrow> Inl SyntaxError | Some d \<Rightarrow> Inr (JV d))"

text \<open>\<^verbatim>\<open>if (!r.ok) throw new Error(msg); const data = await r.json();
  return data.Items || [];\<close>\<close>

definition items_or_throw :: "string \<Rightarrow> response \<Rightarrow> error + jsval" where
  "items_or_throw msg r =
     (if \<not> ok r then Inl (Error msg)
      else case body_json r of
             None \<Rightarrow> Inl SyntaxError
           | Some d \<Rightarrow>
               (case get_prop (JV d) ''Items'' of
                  Inl e \<Rightarrow> Inl e
                | Inr v \<Rightarrow> Inr (js_or v (JV (JArr [])))))"

definition getCurrentUser :: "server \<Rightarrow> session \<Rightarrow> request list \<Rightarrow> jsval result" where
  "getCurrentUser srv s log =
     (let rq = \<lparr> req_method = GET, req_url = serverUrl s @ ''/Users/Me'',
                 req_headers = getHeaders s, req_body = None \<rparr>
      in case fetch srv rq log of
           (Rejected m, log1) \<Rightarrow> (Inl (FetchRejected m), s, log1)
         | (Response r, log1) \<Rightarrow>
             (json_or_throw (status_message label_getCurrentUser r) r, s, log1))"

record GetItemsParams =
  ParentId :: "string option"
  IncludeItemTypes :: "string option"
  Recursive :: "bool option"
  Fields :: "string option"
  SortBy :: "string option"
  SortOrder :: "string option"
  StartIndex :: "number option"
  Limit :: "number option"
  searchTerm :: "string option"

definition show_bool :: "bool \<Rightarrow> string" where
  "show_bool b = (if b then ''true'' else ''false'')"

text \<open>The filters of \<^verbatim>\<open>getItems\<close>, in the order the source sets them.\<close>

definition items_filters :: "GetItemsParams \<Rightarrow> search_params" where
  "items_filters params =
     (let sp = [];
          sp = set_if_truthy ''ParentId'' (ParentId params) sp;
          sp = set_if_truthy ''IncludeItemTypes'' (IncludeItemTypes params) sp;
          sp = set_if_defined ''Recursive'' (map_option show_bool (Recursive params)) sp;
          sp = set_if_truthy ''Fields'' (Fields params) sp;
          sp = set_if_truthy ''SortBy'' (SortBy params) sp;
          sp = set_if_truthy ''SortOrder'' (SortOrder params) sp;
          sp = set_if_defined ''StartIndex'' (map_option number_text (StartIndex params)) sp;
          sp = set_if_defined ''Limit'' (map_option number_text (Limit params)) sp;
          sp = set_if_truthy ''searchTerm'' (searchTerm params) sp
      in sp)"

text \<open>The search parameters of the first request of \<^verbatim>\<open>getItems\<close>, with the
  token when there is one, and those of the retry, where the new token is set
  unconditionally.\<close>

definition getItems_searchParams :: "GetItemsParams \<Rightarrow> session \<Rightarrow> search_params" where
  "getItems_searchParams params s =
     (let sp = items_filters params; token = current_token s
      in if truthy token then sp_set ''X-Emby-Token'' (to_string token) sp else sp)"

definition getItems_retryParams :: "GetItemsParams \<Rightarrow> session \<Rightarrow> session \<Rightarrow> search_params" where
  "getItems_retryParams params s s2 =
     sp_set ''X-Emby-Token'' (to_string (authToken s2)) (getItems_searchParams params s)"

definition getItems_url :: "session \<Rightarrow> search_params \<Rightarrow> string" where
  "getItems_url s sp =
     serverUrl s @ ''/Users/'' @ to_string (userId s) @ ''/Items?'' @ sp_toString sp"

definition getItems :: "server \<Rightarrow> GetItemsParams \<Rightarrow> session \<Rightarrow> request list \<Rightarrow> jsval result" where
  "getItems srv params s0 log0 =
     (case ensureAuthenticated srv s0 log0 of
        (Inl e, s, log) \<Rightarrow> (Inl e, s, log)
      | (Inr _, s, log) \<Rightarrow>
          if \<not> truthy (userId s) then (Inl (Error label_no_user_id), s, log)
          else
            (case fetch srv (get_request (getItems_url s (getItems_searchParams params s))) log of
               (Rejected m, log1) \<Rightarrow> (Inl (FetchRejected m), s, log1)
             | (Response response, log1) \<Rightarrow>
                 (case reauth_credentials response s of
                    Some (u, p) \<Rightarrow>
                      (case login_and_store srv u p s log1 of
                         (Inl e, s2, log2) \<Rightarrow> (Inl e, s2, log2)
                       | (Inr _, s2, log2) \<Rightarrow>
                           (case fetch srv
                                   (get_request (getItems_url s2 (getItems_retryParams params s s2)))
                                   log2 of
                              (Rejected m, log3) \<Rightarrow> (Inl (FetchRejected m), s2, log3)
                            | (Response retryResponse, log3) \<Rightarrow>
                                (json_or_throw (status_message label_getItems retryResponse)
                                   retryResponse, s2, log3)))
                  | None \<Rightarrow>
                      (json_or_throw (status_message label_getItems response) response, s, log1))))"

text \<open>\<^verbatim>\<open>${token ? `&api_key=${token}` : ''}\<close>\<close>

definition api_key_suffix :: "jsval \<Rightarrow> string" where
  "api_key_suffix token = (if truthy token then ''&api_key='' @ to_string token else [])"

definition getItem_url :: "string \<Rightarrow> session \<Rightarrow> jsval \<Rightarrow> string" where
  "getItem_url itemId s token =
     serverUrl s @ ''/Users/'' @ to_string (userId s) @ ''/Items/'' @ itemId
       @ ''?Fields=MediaSources'' @ api_key_suffix token"

definition getItem :: "server \<Rightarrow> string \<Rightarrow> session \<Rightarrow> request list \<Rightarrow> jsval result" where
  "getItem srv itemId s0 log0 =
     (case ensureAuthenticated srv s0 log0 of
        (Inl e, s, log) \<Rightarrow> (Inl e, s, log)
      | (Inr _, s, log) \<Rightarrow>
          if \<not> truthy (userId s) then (Inl (Error label_no_user_id), s, log)
          else
            (case fetch srv (get_request (getItem_url itemId s (current_token s))) log of
               (Rejected m, log1) \<Rightarrow> (Inl (FetchRejected m), s, log1)
             | (Response response, log1) \<Rightarrow>
                 (case reauth_credentials response s of
                    Some (u, p) \<Rightarrow>
                      (case login_and_store srv u p s log1 of
                         (Inl e, s2, log2) \<Rightarrow> (Inl e, s2, log2)
                       | (Inr _, s2, log2) \<Rightarrow>
                           (case fetch srv (get_request (getItem_url itemId s2 (authToken s2))) log2 of
                              (Rejected m, log3) \<Rightarrow> (Inl (FetchRejected m), s2, log3)
                            | (Response retryResponse, log3) \<Rightarrow>
                                (json_or_throw label_getItem retryResponse, s2, log3)))
                  | None \<Rightarrow> (json_or_throw label_getItem response, s, log1))))"

definition getSeasons_url :: "string \<Rightarrow> session \<Rightarrow> jsval \<Rightarrow> string" where
  "getSeasons_url seriesId s token =
     serverUrl s @ ''/Shows/'' @ seriesId @ ''/Seasons?userId='' @ to_string (userId s)
       @ api_key_suffix token"

definition getSeasons :: "server \<Rightarrow> string \<Rightarrow> session \<Rightarrow> request list \<Rightarrow> jsval result" where
  "getSeasons srv seriesId s0 log0 =
     (case ensureAuthenticated srv s0 log0 of
        (Inl e, s, log) \<Rightarrow> (Inl e, s, log)
      | (Inr _, s, log) \<Rightarrow>
          if \<not> truthy (userId s) then (Inl (Error label_no_user_id), s, log)
          else
            (case fetch srv (get_request (getSeasons_url seriesId s (current_token s))) log of
               (Rejected m, log1) \<Rightarrow> (Inl (FetchRejected m), s, log1)
             | (Response response, log1) \<Rightarrow>
                 (case reauth_credentials response s of
                    Some (u, p) \<Rightarrow>
                      (case login_and_store srv u p s log1 of
                         (Inl e, s2, log2) \<Rightarrow> (Inl e, s2, log2)
                       | (Inr _, s2, log2) \<Rightarrow>
                           (case fetch srv (get_request (getSeasons_url seriesId s2 (authToken s2))) log2 of
                              (Rejected m, log3) \<Rightarrow> (Inl (FetchRejected m), s2, log3)
                            | (Response retryResponse, log3) \<Rightarrow>
                                (items_or_throw label_getSeasons retryResponse, s2, log3)))
                  | None \<Rightarrow> (items_or_throw label_getSeasons response, s, log1))))"

text \<open>The search parameters of \<^verbatim>\<open>getEpisodes\<close>; the first request is built
  with \<^verbatim>\<open>this.apiKey || this.authToken\<close>, the retry with
  \<^verbatim>\<open>this.authToken\<close>.\<close>

definition getEpisodes_searchParams :: "string option \<Rightarrow> session \<Rightarrow> jsval \<Rightarrow> search_params" where
  "getEpisodes_searchParams seasonId s token =
     (let sp = [(''userId'', to_string (userId s)), (''Fields'', ''MediaSources'')];
          sp = set_if_truthy ''seasonId'' seasonId sp
      in if truthy token then sp_set ''api_key'' (to_string token) sp else sp)"

definition getEpisodes_url :: "string \<Rightarrow> string option \<Rightarrow> session \<Rightarrow> jsval \<Rightarrow> string" where
  "getEpisodes_url seriesId seasonId s token =
     serverUrl s @ ''/Shows/'' @ seriesId @ ''/Episodes?''
       @ sp_toString (getEpisodes_searchParams seasonId s token)"

definition getEpisodes ::
  "server \<Rightarrow> string \<Rightarrow> string option \<Rightarrow> session \<Rightarrow> request list \<Rightarrow> jsval result" where
  "getEpisodes srv seriesId seasonId s0 log0 =
     (case ensureAuthenticated srv s0 log0 of
        (Inl e, s, log) \<Rightarrow> (Inl e, s, log)
      | (Inr _, s, log) \<Rightarrow>
          if \<not> truthy (userId s) then (Inl (Error label_no_user_id), s, log)
          else
            (case fetch srv (get_request (getEpisodes_url seriesId seasonId s (current_token s))) log of
               (Rejected m, log1) \<Rightarrow> (Inl (FetchRejected m), s, log1)
             | (Response response, log1) \<Rightarrow>
                 (case reauth_credentials response s of
                    Some (u, p) \<Rightarrow>
                      (case login_and_store srv u p s log1 of
                         (Inl e, s2, log2) \<Rightarrow> (Inl e, s2, log2)
                       | (Inr _, s2, log2) \<Rightarrow>
                           (case fetch srv
                                   (get_request (getEpisodes_url seriesId seasonId s2 (authToken s2)))
                                   log2 of
                              (Rejected m, log3) \<Rightarrow> (Inl (FetchRejected m), s2, log3)
                            | (Response retryResponse, log3) \<Rightarrow>
                                (items_or_throw label_getEpisodes retryResponse, s2, log3)))
                  | None \<Rightarrow> (items_or_throw label_getEpisodes response, s, log1))))"

text \<open>\<^verbatim>\<open>checkConnectivity\<close>: the body of the \<^verbatim>\<open>try\<close>, and the whole with its
  \<^verbatim>\<open>catch\<close>.\<close>

definition checkConnectivity_url :: "session \<Rightarrow> string" where
  "checkConnectivity_url s =
     serverUrl s @ ''/System/Info/Public''
       @ (if truthy (current_token s) then ''?api_key='' @ to_string (current_token s) else [])"

definition checkConnectivity_try :: "server \<Rightarrow> session \<Rightarrow> request list \<Rightarrow> bool result" where
  "checkConnectivity_try srv s log =
     (case fetch srv (get_request (checkConnectivity_url s)) log of
        (Rejected m, log1) \<Rightarrow> (Inl (FetchRejected m), s, log1)
      | (Response response, log1) \<Rightarrow> (Inr (ok response), s, log1))"

definition checkConnectivity :: "server \<Rightarrow> session \<Rightarrow> request list \<Rightarrow> bool result" where
  "checkConnectivity srv s log =
     (case checkConnectivity_try srv s log of
        (Inl e, s1, log1) \<Rightarrow> (Inr False, s1, log1)
      | (Inr b, s1, log1) \<Rightarrow> (Inr b, s1, log1))"

section \<open>Resource URLs\<close>

datatype image_type = Primary | Backdrop | Logo

fun image_type_name :: "image_type \<Rightarrow> string" where
  "image_type_name Primary = ''Primary''"
| "image_type_name Backdrop = ''Backdrop''"
| "image_type_name Logo = ''Logo''"

text \<open>\<^verbatim>\<open>getImageUrl(itemId, imageType = 'Primary', maxWidth?)\<close>. An argument left
  out is \<open>None\<close>. \<^verbatim>\<open>if (maxWidth)\<close> skips a falsy width as well.\<close>

definition getImageUrl :: "string \<Rightarrow> image_type option \<Rightarrow> number option \<Rightarrow> session \<Rightarrow> string" where
  "getImageUrl itemId imageType maxWidth s =
     (let params = [];
          token = current_token s;
          params = (case maxWidth of
                      None \<Rightarrow> params
                    | Some w \<Rightarrow>
                        if number_truthy w then sp_set ''maxWidth'' (number_text w) params
                        else params);
          params = (if truthy token then sp_set ''api_key'' (to_string token) params else params);
          queryString = sp_toString params
      in serverUrl s @ ''/Items/'' @ itemId @ ''/Images/''
           @ image_type_name (case imageType of None \<Rightarrow> Primary | Some t \<Rightarrow> t)
           @ (if queryString \<noteq> [] then ''?'' @ queryString else []))"

text \<open>\<^verbatim>\<open>getStreamUrl(itemId, direct = true)\<close>\<close>

definition getStreamUrl :: "string \<Rightarrow> bool option \<Rightarrow> session \<Rightarrow> string" where
  "getStreamUrl itemId direct s =
     (if (case direct of None \<Rightarrow> True | Some d \<Rightarrow> d)
      then serverUrl s @ ''/Videos/'' @ itemId @ ''/stream?Static=true&api_key=''
             @ to_string (current_token s)
      else serverUrl s @ ''/Videos/'' @ itemId @ ''/master.m3u8?api_key=''
             @ to_string (current_token s))"

text \<open>The fields of an item that \<^verbatim>\<open>getSubtitles\<close> reads.\<close>

record MediaStream =
  Type :: string
  Index :: number
  DisplayTitle :: "string option"
  Language :: "string option"
  Codec :: "string option"
  IsExternal :: "bool option"
  DeliveryUrl :: "string option"

record MediaSource =
  source_Id :: string
  MediaStreams :: "MediaStream list option"

record EmbyItem =
  Id :: string
  MediaSources :: "MediaSource list option"

record subtitle =
  url :: string
  language :: string
  label :: string

text \<open>The body of the \<^verbatim>\<open>forEach\<close>: the entry of one subtitle stream.\<close>

definition subtitle_of :: "session \<Rightarrow> EmbyItem \<Rightarrow> MediaSource \<Rightarrow> jsval \<Rightarrow> MediaStream \<Rightarrow> subtitle" where
  "subtitle_of s item mediaSource token stream =
     (let lang = to_string (js_or (of_opt (Language stream)) (JV (JStr ''unknown'')));
          lbl = to_string (js_or (of_opt (DisplayTitle stream))
                  (JV (JStr (lang @ '' ('' @ to_string (of_opt (Codec stream)) @ '')''))))
      in if IsExternal stream = Some True \<and> truthy (of_opt (DeliveryUrl stream))
         then \<lparr> url = serverUrl s @ to_string (of_opt (DeliveryUrl stream)),
                language = lang, label = lbl \<rparr>
         else \<lparr> url = serverUrl s @ ''/Videos/'' @ Id item @ ''/'' @ source_Id mediaSource
                        @ ''/Subtitles/'' @ number_text (Index stream) @ ''/Stream.vtt?api_key=''
                        @ to_string token,
                language = lang, label = lbl \<rparr>)"

definition getSubtitles :: "EmbyItem \<Rightarrow> session \<Rightarrow> subtitle list" where
  "getSubtitles item s =
     (case MediaSources item of
        None \<Rightarrow> []
      | Some [] \<Rightarrow> []
      | Some (mediaSource # _) \<Rightarrow>
          (case MediaStreams mediaSource of
             None \<Rightarrow> []
           | Some streams \<Rightarrow>
               map (subtitle_of s item mediaSource (current_token s))
                 (filter (\<lambda>stream. Type stream = ''Subtitle'') streams)))"

section \<open>The four user-scoped data operations together\<close>

text \<open>The operations that \<^verbatim>\<open>getItems\<close>, \<^verbatim>\<open>getItem\<close>, \<^verbatim>\<open>getSeasons\<close> and
  \<^verbatim>\<open>getEpisodes\<close> share one shape; a call of one of them with its arguments:\<close>

datatype data_op =
    GetItems GetItemsParams
  | GetItem string
  | GetSeasons string
  | GetEpisodes string "string option"

fun run_op :: "server \<Rightarrow> data_op \<Rightarrow> session \<Rightarrow> request list \<Rightarrow> jsval result" where
  "run_op srv (GetItems params) = getItems srv params"
| "run_op srv (GetItem itemId) = getItem srv itemId"
| "run_op srv (GetSeasons seriesId) = getSeasons srv seriesId"
| "run_op srv (GetEpisodes seriesId seasonId) = getEpisodes srv seriesId seasonId"

text \<open>The request an operation makes first in session \<open>s\<close>, and the request of its
  retry, made in the session \<open>s2\<close> that the login has left.\<close>

fun first_request :: "data_op \<Rightarrow> session \<Rightarrow> request" where
  "first_request (GetItems params) s = get_request (getItems_url s (getItems_searchParams params s))"
| "first_request (GetItem itemId) s = get_request (getItem_url itemId s (current_token s))"
| "first_request (GetSeasons seriesId) s = get_request (getSeasons_url seriesId s (current_token s))"
| "first_request (GetEpisodes seriesId seasonId) s =
     get_request (getEpisodes_url seriesId seasonId s (current_token s))"

fun retry_request :: "data_op \<Rightarrow> session \<Rightarrow> session \<Rightarrow> request" where
  "retry_request (GetItems params) s s2 =
     get_request (getItems_url s2 (getItems_retryParams params s s2))"
| "retry_request (GetItem itemId) s s2 = get_request (getItem_url itemId s2 (authToken s2))"
| "retry_request (GetSeasons seriesId) s s2 =
     get_request (getSeasons_url seriesId s2 (authToken s2))"
| "retry_request (GetEpisodes seriesId seasonId) s s2 =
     get_request (getEpisodes_url seriesId seasonId s2 (authToken s2))"

text \<open>What an operation makes of the response it ends with.\<close>

fun finish :: "data_op \<Rightarrow> response \<Rightarrow> error + jsval" where
  "finish (GetItems params) r = json_or_throw (status_message label_getItems r) r"
| "finish (GetItem itemId) r = json_or_throw label_getItem r"
| "finish (GetSeasons seriesId) r = items_or_throw label_getSeasons r"
| "finish (GetEpisodes seriesId seasonId) r = items_or_throw label_getEpisodes r"

text \<open>Counting the calls of a log: those of the login endpoint, and the others.\<close>

definition is_login_call :: "session \<Rightarrow> request \<Rightarrow> bool" where
  "is_login_call s rq = (req_method rq = POST \<and> req_url rq = login_url s)"

definition login_calls :: "session \<Rightarrow> request list \<Rightarrow> nat" where
  "login_calls s log = length (filter (is_login_call s) log)"

definition data_calls :: "session \<Rightarrow> request list \<Rightarrow> nat" where
  "data_calls s log = length (filter (\<lambda>rq. \<not> is_login_call s rq) log)"

text \<open>The requests an operation has added to the log it started with.\<close>

definition calls_of :: "request list \<Rightarrow> 'a result \<Rightarrow> request list" where
  "calls_of log0 out = drop (length log0) (snd (snd out))"

section \<open>Example sessions and servers\<close>

definition reply :: "nat \<Rightarrow> string \<Rightarrow> json option \<Rightarrow> outcome" where
  "reply st txt js = Response \<lparr> status = st, body_text = txt, body_json = js \<rparr>"

text \<open>A server that gives the answer \<open>login\<close> to every call of the login endpoint, the
  answer \<open>before\<close> to a data call made before any login and the answer \<open>after\<close> to a data
  call made after one.\<close>

definition scripted :: "outcome \<Rightarrow> outcome \<Rightarrow> outcome \<Rightarrow> server" where
  "scripted login before after log rq =
     (if req_method rq = POST then login
      else if list_ex (\<lambda>q. req_method q = POST) log then after else before)"

definition login_body :: json where
  "login_body = JObj [(''AccessToken'', JStr ''new''), (''User'', JObj [(''Id'', JStr ''u2'')])]"

definition login_text :: string where
  \<open>login_text = ''{"AccessToken":"new","User":{"Id":"u2"}}''\<close>

definition login_ok :: outcome where
  "login_ok = reply 200 login_text (Some login_body)"

text \<open>A login answer with a token and no user.\<close>

definition token_only_body :: json where
  "token_only_body = JObj [(''AccessToken'', JStr ''t9'')]"

definition token_only_text :: string where
  \<open>token_only_text = ''{"AccessToken":"t9"}''\<close>

definition token_only :: outcome where
  "token_only = reply 200 token_only_text (Some token_only_body)"

definition login_denied :: outcome where
  "login_denied = reply 401 ''Invalid username or password'' None"

definition unauthorized :: outcome where
  "unauthorized = reply 401 ''Unauthorized'' None"

definition server_error :: outcome where
  "server_error = reply 500 ''boom'' None"

definition not_found :: outcome where
  "not_found = reply 404 ''gone'' None"

definition no_items_body :: json where
  "no_items_body = JObj [(''TotalRecordCount'', JNum ''0'')]"

definition no_items_text :: string where
  \<open>no_items_text = ''{"TotalRecordCount":0}''\<close>

definition no_items :: outcome where
  "no_items = reply 200 no_items_text (Some no_items_body)"

text \<open>The token has expired for good: every data call is unauthorized, every login is
  accepted.\<close>

definition expired :: server where
  "expired = scripted login_ok unauthorized unauthorized"

text \<open>The token has expired and the credentials are no longer accepted.\<close>

definition locked_out :: server where
  "locked_out = scripted login_denied unauthorized unauthorized"

definition careless :: server where
  "careless = scripted token_only unauthorized unauthorized"

definition failing :: server where
  "failing = scripted login_ok server_error server_error"

definition missing :: server where
  "missing = scripted login_ok not_found not_found"

definition itemless :: server where
  "itemless = scripted login_ok no_items no_items"

definition offline :: server where
  "offline log rq = Rejected ''fetch failed''"

text \<open>A session with a cached token and the credentials to renew it; one with the
  credentials only; one with an API key beside the credentials; one with a user id and
  no credential at all; and one with nothing.\<close>

definition cached_session :: session where
  "cached_session =
     \<lparr> serverUrl = ''http://host:8096/emby'', apiKey = None, userId = JV (JStr ''u1''),
       authToken = JV (JStr ''old''), username = Some ''alice'', password = Some ''secret'' \<rparr>"

definition fresh_session :: session where
  "fresh_session =
     \<lparr> serverUrl = ''http://host:8096/emby'', apiKey = None, userId = JV (JStr ''u1''),
       authToken = Undefined, username = Some ''alice'', password = Some ''secret'' \<rparr>"

definition key_session :: session where
  "key_session =
     \<lparr> serverUrl = ''http://host:8096/emby'', apiKey = Some ''key'', userId = JV (JStr ''u1''),
       authToken = Undefined, username = Some ''alice'', password = Some ''secret'' \<rparr>"

definition anonymous_session :: session where
  "anonymous_session =
     \<lparr> serverUrl = ''http://host:8096/emby'', apiKey = None, userId = JV (JStr ''u1''),
       authToken = Undefined, username = None, password = None \<rparr>"

definition empty_session :: session where
  "empty_session =
     \<lparr> serverUrl = ''http://host:8096/emby'', apiKey = None, userId = Undefined,
       authToken = Undefined, username = None, password = None \<rparr>"

definition no_filters :: GetItemsParams where
  "no_filters =
     \<lparr> ParentId = None, IncludeItemTypes = None, Recursive = None, Fields = None,
       SortBy = None, SortOrder = None, StartIndex = None, Limit = None, searchTerm = None \<rparr>"

text \<open>An item with an external subtitle, an embedded one and an audio stream.\<close>

definition external_stream :: MediaStream where
  "external_stream =
     \<lparr> Type = ''Subtitle'', Index = Number ''3'', DisplayTitle = Some ''English (SRT)'',
       Language = Some ''eng'', Codec = Some ''srt'', IsExternal = Some True,
       DeliveryUrl = Some ''/sub1.vtt'' \<rparr>"

definition embedded_stream :: MediaStream where
  "embedded_stream =
     \<lparr> Type = ''Subtitle'', Index = Number ''2'', DisplayTitle = None, Language = None,
       Codec = Some ''ass'', IsExternal = None, DeliveryUrl = None \<rparr>"

definition audio_stream :: MediaStream where
  "audio_stream =
     \<lparr> Type = ''Audio'', Index = Number ''1'', DisplayTitle = None, Language = Some ''eng'',
       Codec = Some ''aac'', IsExternal = None, DeliveryUrl = None \<rparr>"

definition film_source :: MediaSource where
  "film_source =
     \<lparr> source_Id = ''m1'', MediaStreams = Some [audio_stream, external_stream, embedded_stream] \<rparr>"

definition film :: EmbyItem where
  "film = \<lparr> Id = ''i1'', MediaSources = Some [film_source] \<rparr>"

section \<open>Endpoint normalisation\<close>

lemma endsWith_append: "endsWith (s @ suf) suf"
  by (simp add: endsWith_def)

lemma endsWith_normalizeServerUrl: "endsWith (normalizeServerUrl x) ''/emby''"
  unfolding normalizeServerUrl_def Let_def
  using endsWith_append [of "strip_trailing_slash x" "''/emby''"]
  by (simp del: append.simps)

lemma endsWith_last:
  assumes "endsWith s suf" and "suf \<noteq> []"
  shows "s \<noteq> [] \<and> last s = last suf"
proof -
  from assms(1) have len: "length suf \<le> length s"
    and d: "drop (length s - length suf) s = suf"
    by (simp_all add: endsWith_def)
  from len assms(2) have ne: "s \<noteq> []" by auto
  have "s = take (length s - length suf) s @ suf"
    using d append_take_drop_id [of "length s - length suf" s] by simp
  then have "last s = last (take (length s - length suf) s @ suf)" by simp
  also have "\<dots> = last suf" using assms(2) by simp
  finally show ?thesis using ne by simp
qed

lemma strip_trailing_slash_emby:
  "endsWith s ''/emby'' \<Longrightarrow> strip_trailing_slash s = s"
  using endsWith_last [of s "''/emby''"] by (simp add: strip_trailing_slash_def)

text \<open>
  C8. Endpoint normalisation strips one trailing slash and appends the API root
  \<^verbatim>\<open>/emby\<close> when the result does not end with it. It is idempotent on every
  string, and \<^verbatim>\<open>http://host:8096/\<close> and \<^verbatim>\<open>http://host:8096/emby\<close> both
  normalise to \<^verbatim>\<open>http://host:8096/emby\<close>. The constructor stores the normalised
  endpoint.
\<close>

theorem normalizeServerUrl_idempotent:
  "normalizeServerUrl (normalizeServerUrl x) = normalizeServerUrl x
   \<and> normalizeServerUrl x =
       (if endsWith (strip_trailing_slash x) ''/emby'' then strip_trailing_slash x
        else strip_trailing_slash x @ ''/emby'')
   \<and> strip_trailing_slash (y @ ''/'') = y
   \<and> normalizeServerUrl ''http://host:8096/'' = ''http://host:8096/emby''
   \<and> normalizeServerUrl ''http://host:8096/emby'' = ''http://host:8096/emby''
   \<and> serverUrl (EmbyClient config) = normalizeServerUrl (ServerURL config)"
proof -
  have e: "endsWith (normalizeServerUrl x) ''/emby''"
    by (rule endsWith_normalizeServerUrl)
  have idem: "normalizeServerUrl (normalizeServerUrl x) = normalizeServerUrl x"
    using e strip_trailing_slash_emby [OF e]
    by (simp add: normalizeServerUrl_def [of "normalizeServerUrl x"] Let_def)
  have shape: "normalizeServerUrl x =
      (if endsWith (strip_trailing_slash x) ''/emby'' then strip_trailing_slash x
       else strip_trailing_slash x @ ''/emby'')"
    by (simp add: normalizeServerUrl_def Let_def)
  have strip: "strip_trailing_slash (y @ ''/'') = y"
    by (simp add: strip_trailing_slash_def)
  have ex1: "normalizeServerUrl ''http://host:8096/'' = ''http://host:8096/emby''"
    by (simp add: normalizeServerUrl_def strip_trailing_slash_def endsWith_def)
  have ex2: "normalizeServerUrl ''http://host:8096/emby'' = ''http://host:8096/emby''"
    by (simp add: normalizeServerUrl_def strip_trailing_slash_def endsWith_def)
  have ctor: "serverUrl (EmbyClient config) = normalizeServerUrl (ServerURL config)"
    by (simp add: EmbyClient_def)
  from idem shape strip ex1 ex2 ctor show ?thesis by blast
qed

section \<open>Evaluating the examples\<close>

lemmas example_defs =
  reply_def scripted_def login_body_def login_ok_def login_denied_def unauthorized_def
  token_only_body_def token_only_def careless_def
  server_error_def not_found_def no_items_body_def no_items_def expired_def locked_out_def
  failing_def missing_def itemless_def offline_def cached_session_def fresh_session_def
  key_session_def anonymous_session_def empty_session_def no_filters_def

lemmas client_defs =
  getItems_def getItem_def getSeasons_def getEpisodes_def ensureAuthenticated_def
  login_and_store_def authenticate_def store_auth_def credentials_def reauth_credentials_def
  fetch_def get_request_def login_request_def login_url_def ok_def json_or_throw_def
  items_or_throw_def status_message_def current_token_def js_or_def api_key_suffix_def
  getItem_url_def getSeasons_url_def getEpisodes_url_def getEpisodes_searchParams_def
  getItems_url_def getItems_searchParams_def getItems_retryParams_def items_filters_def
  set_if_truthy_def set_if_defined_def sp_toString_def urlencode_def encode_char_def
  unreserved_def hex_digit_def Let_def

section \<open>The login\<close>

lemma fetch_eq: "fetch srv rq log = (srv log rq, log @ [rq])"
  by (simp add: fetch_def)

lemma authenticate_log:
  "authenticate srv u p s log = (res, s', log') \<Longrightarrow> log' = log @ [login_request s u p]"
  by (auto simp: authenticate_def fetch_eq split: outcome.splits if_splits option.splits prod.splits sum.splits)

lemma store_auth_Inr:
  "store_auth d s = (Inr x, s') \<longleftrightarrow>
     (\<exists>tok usr uid. get_prop (JV d) ''AccessToken'' = Inr tok \<and> get_prop (JV d) ''User'' = Inr usr
        \<and> get_prop usr ''Id'' = Inr uid \<and> s' = s\<lparr>authToken := tok, userId := uid\<rparr>)"
  by (auto simp: store_auth_def Let_def split: sum.splits)

lemma store_auth_again:
  "store_auth d s = (Inr x, s') \<Longrightarrow> store_auth d s' = (Inr (), s')"
  by (auto simp: store_auth_def Let_def split: sum.splits)

lemma authenticate_Inr:
  "authenticate srv u p s log = (Inr d, s', log') \<longleftrightarrow>
     (\<exists>r. srv log (login_request s u p) = Response r \<and> ok r \<and> body_json r = Some d
        \<and> store_auth d s = (Inr (), s') \<and> log' = log @ [login_request s u p])"
  by (auto simp: authenticate_def fetch_eq split: outcome.splits if_splits option.splits prod.splits sum.splits)

lemma login_and_store_eq:
  "login_and_store srv u p s log =
     (case authenticate srv u p s log of
        (Inl e, s1, log1) \<Rightarrow> (Inl e, s1, log1)
      | (Inr d, s1, log1) \<Rightarrow> (Inr (), s1, log1))"
proof (cases "authenticate srv u p s log")
  case (fields res s1 log1)
  show ?thesis
  proof (cases res)
    case (Inl e)
    with fields show ?thesis by (simp add: login_and_store_def)
  next
    case (Inr d)
    with fields have "store_auth d s = (Inr (), s1)"
      by (simp add: authenticate_Inr) blast
    then have "store_auth d s1 = (Inr (), s1)" by (rule store_auth_again)
    with fields Inr show ?thesis by (simp add: login_and_store_def)
  qed
qed

lemma login_and_store_log:
  "login_and_store srv u p s log = (res, s', log') \<Longrightarrow> log' = log @ [login_request s u p]"
  by (auto simp: login_and_store_eq dest: authenticate_log split: prod.splits sum.splits)

lemma login_request_POST: "req_method (login_request s u p) = POST"
  by (simp add: login_request_def)


text \<open>The same for every server, session and body of that kind.\<close>

lemma authenticate_token_without_user:
  assumes "srv log (login_request s u p) = Response r" and "ok r" and "body_json r = Some d"
    and "get_prop (JV d) ''AccessToken'' = Inr tok" and "get_prop (JV d) ''User'' = Inr Undefined"
  shows "authenticate srv u p s log =
           (Inl TypeError, s\<lparr>authToken := tok\<rparr>, log @ [login_request s u p])"
  using assms by (simp add: authenticate_def fetch_def store_auth_def)



section \<open>The shape the four data operations share\<close>

lemma run_op_unfold:
  "run_op srv op s0 log0 =
     (case ensureAuthenticated srv s0 log0 of
        (Inl e, s, log) \<Rightarrow> (Inl e, s, log)
      | (Inr _, s, log) \<Rightarrow>
          if \<not> truthy (userId s) then (Inl (Error label_no_user_id), s, log)
          else
            (case srv log (first_request op s) of
               Rejected m \<Rightarrow> (Inl (FetchRejected m), s, log @ [first_request op s])
             | Response response \<Rightarrow>
                 (case reauth_credentials response s of
                    Some (u, p) \<Rightarrow>
                      (case login_and_store srv u p s (log @ [first_request op s]) of
                         (Inl e, s2, log2) \<Rightarrow> (Inl e, s2, log2)
                       | (Inr _, s2, log2) \<Rightarrow>
                           (case srv log2 (retry_request op s s2) of
                              Rejected m \<Rightarrow> (Inl (FetchRejected m), s2, log2 @ [retry_request op s s2])
                            | Response retryResponse \<Rightarrow>
                                (finish op retryResponse, s2, log2 @ [retry_request op s s2])))
                  | None \<Rightarrow> (finish op response, s, log @ [first_request op s]))))"
proof (cases op)
  case (GetItems params)
  then show ?thesis
    by (simp add: getItems_def fetch_eq split: prod.splits sum.splits outcome.splits option.splits)
next
  case (GetItem itemId)
  then show ?thesis
    by (simp add: getItem_def fetch_eq split: prod.splits sum.splits outcome.splits option.splits)
next
  case (GetSeasons seriesId)
  then show ?thesis
    by (simp add: getSeasons_def fetch_eq split: prod.splits sum.splits outcome.splits option.splits)
next
  case (GetEpisodes seriesId seasonId)
  then show ?thesis
    by (simp add: getEpisodes_def fetch_eq split: prod.splits sum.splits outcome.splits option.splits)
qed

lemma first_request_GET: "req_method (first_request op s) = GET"
  by (cases op) (simp_all add: get_request_def)

lemma retry_request_GET: "req_method (retry_request op s s2) = GET"
  by (cases op) (simp_all add: get_request_def)

lemma ensureAuthenticated_log:
  assumes "ensureAuthenticated srv s0 log0 = (res, s, log)"
  shows "log = log0 \<or> (\<exists>u p. log = log0 @ [login_request s0 u p])"
  using assms
  by (auto simp: ensureAuthenticated_def split: if_splits option.splits dest: login_and_store_log)

text \<open>
  An operation whose last call was a data call makes its result of the response to that
  call: the first response when there was no retry, the response to the retry otherwise.
\<close>

lemma final_response:
  assumes run: "run_op srv op s0 log0 = (res, s, log)"
    and made: "length log0 < length log"
    and data: "req_method (last log) = GET"
  shows "res = (case srv (butlast log) (last log) of
                  Rejected m \<Rightarrow> Inl (FetchRejected m)
                | Response r \<Rightarrow> finish op r)"
proof (cases "ensureAuthenticated srv s0 log0")
  case (fields res1 s1 log1)
  from ensureAuthenticated_log [OF fields]
  have l1: "log1 = log0 \<or> (\<exists>u p. log1 = log0 @ [login_request s0 u p])" .
  show ?thesis
  proof (cases res1)
    case (Inl e)
    with fields run have "log = log1" by (simp add: run_op_unfold)
    with l1 made data show ?thesis by (auto simp: login_request_POST)
  next
    case (Inr x)
    show ?thesis
    proof (cases "truthy (userId s1)")
      case False
      with fields Inr run have "log = log1" by (simp add: run_op_unfold)
      with l1 made data show ?thesis by (auto simp: login_request_POST)
    next
      case True
      show ?thesis
      proof (cases "srv log1 (first_request op s1)")
        case (Rejected m)
        with fields Inr True run show ?thesis by (auto simp: run_op_unfold)
      next
        case (Response r)
        show ?thesis
        proof (cases "reauth_credentials r s1")
          case None
          with fields Inr True run Response show ?thesis by (auto simp: run_op_unfold)
        next
          case (Some up)
          obtain u p where up: "up = (u, p)" by (cases up)
          obtain res2 s2 log2 where
            ls: "login_and_store srv u p s1 (log1 @ [first_request op s1]) = (res2, s2, log2)"
            by (cases "login_and_store srv u p s1 (log1 @ [first_request op s1])")
          from login_and_store_log [OF ls]
          have l2: "log2 = log1 @ [first_request op s1, login_request s1 u p]" by simp
          show ?thesis
          proof (cases res2)
            case (Inl e)
            with fields Inr True run Response Some up ls have "log = log2"
              by (simp add: run_op_unfold)
            with l2 data show ?thesis by (simp add: login_request_POST)
          next
            case (Inr y)
            with fields \<open>res1 = Inr x\<close> True run Response Some up ls show ?thesis
              by (auto simp: run_op_unfold split: outcome.splits)
          qed
        qed
      qed
    qed
  qed
qed

lemma run_op_apiKey:
  assumes "truthy (of_opt (apiKey s))" and "truthy (userId s)"
  shows "run_op srv op s log =
           (case srv log (first_request op s) of
              Rejected m \<Rightarrow> Inl (FetchRejected m)
            | Response r \<Rightarrow> finish op r, s, log @ [first_request op s])"
  using assms
  by (simp add: run_op_unfold ensureAuthenticated_def reauth_credentials_def split: outcome.splits)

lemma login_calls_append_GET:
  "req_method rq = GET \<Longrightarrow> login_calls s (log @ [rq]) = login_calls s log"
  by (simp add: login_calls_def is_login_call_def)

lemma finish_not_ok:
  "\<not> ok r \<Longrightarrow>
   finish op r =
     Inl (Error (case op of
                   GetItems params \<Rightarrow>
                     label_getItems @ '' ('' @ show_nat (status r) @ ''): '' @ body_text r
                 | GetItem itemId \<Rightarrow> label_getItem
                 | GetSeasons seriesId \<Rightarrow> label_getSeasons
                 | GetEpisodes seriesId seasonId \<Rightarrow> label_getEpisodes))"
  by (cases op) (simp_all add: json_or_throw_def items_or_throw_def status_message_def)

lemma finish_no_Items:
  assumes "ok r" and "body_json r = Some d" and "get_prop (JV d) ''Items'' = Inr Undefined"
  shows "finish op r =
     (case op of
        GetItems params \<Rightarrow> Inr (JV d)
      | GetItem itemId \<Rightarrow> Inr (JV d)
      | GetSeasons seriesId \<Rightarrow> Inr (JV (JArr []))
      | GetEpisodes seriesId seasonId \<Rightarrow> Inr (JV (JArr [])))"
  using assms by (cases op) (simp_all add: json_or_throw_def items_or_throw_def js_or_def)

lemma store_auth_keeps:
  "store_auth d s = (res, s') \<Longrightarrow>
   serverUrl s' = serverUrl s \<and> apiKey s' = apiKey s \<and> username s' = username s
     \<and> password s' = password s"
  by (auto simp: store_auth_def Let_def split: sum.splits)

lemma authenticate_keeps:
  "authenticate srv u p s log = (res, s', log') \<Longrightarrow>
   serverUrl s' = serverUrl s \<and> apiKey s' = apiKey s \<and> username s' = username s
     \<and> password s' = password s"
  by (auto simp: authenticate_def fetch_eq
      split: outcome.splits if_splits option.splits prod.splits sum.splits
      dest: store_auth_keeps)

lemma ensureAuthenticated_keeps:
  "ensureAuthenticated srv s0 log0 = (res, s, log) \<Longrightarrow>
   serverUrl s = serverUrl s0 \<and> apiKey s = apiKey s0 \<and> username s = username s0
     \<and> password s = password s0"
  by (auto simp: ensureAuthenticated_def login_and_store_eq
      split: if_splits option.splits prod.splits sum.splits
      dest: authenticate_keeps)

lemma gate_log:
  assumes "credentials s0 = Some (u, p)" and "\<not> truthy (of_opt (apiKey s0))"
    and "ensureAuthenticated srv s0 log0 = (res, s, log)"
  shows "log = log0 @ (if truthy (authToken s0) then [] else [login_request s0 u p])"
  using assms
  by (auto simp: ensureAuthenticated_def split: if_splits dest: login_and_store_log)

lemma run_op_retry:
  assumes creds: "credentials s0 = Some (u, p)" and nokey: "\<not> truthy (of_opt (apiKey s0))"
    and gate: "ensureAuthenticated srv s0 log0 = (Inr (), s, log)"
    and uid: "truthy (userId s)"
    and first: "srv log (first_request op s) = Response r1" and unauth: "status r1 = 401"
  shows "run_op srv op s0 log0 =
     (case authenticate srv u p s (log @ [first_request op s]) of
        (Inl e, s2, log2) \<Rightarrow> (Inl e, s2, log @ [first_request op s, login_request s0 u p])
      | (Inr d, s2, log2) \<Rightarrow>
          (case srv (log @ [first_request op s, login_request s0 u p]) (retry_request op s s2) of
             Rejected m \<Rightarrow> Inl (FetchRejected m)
           | Response r2 \<Rightarrow> finish op r2,
           s2, log @ [first_request op s, login_request s0 u p, retry_request op s s2]))"
proof -
  note keeps = ensureAuthenticated_keeps [OF gate]
  have cs: "credentials s = Some (u, p)"
    using creds keeps by (simp add: credentials_def)
  have rc: "reauth_credentials r1 s = Some (u, p)"
    using cs nokey keeps unauth by (simp add: reauth_credentials_def)
  have lr: "login_request s u p = login_request s0 u p"
    using keeps by (simp add: login_request_def login_url_def)
  obtain ra s2 log2 where au: "authenticate srv u p s (log @ [first_request op s]) = (ra, s2, log2)"
    by (cases "authenticate srv u p s (log @ [first_request op s])")
  from authenticate_log [OF au] lr
  have l2: "log2 = log @ [first_request op s, login_request s0 u p]" by simp
  show ?thesis
    using gate uid first rc au l2
    by (cases ra) (simp_all add: run_op_unfold login_and_store_eq split: outcome.splits)
qed

text \<open>The parameters of a retry of \<^verbatim>\<open>getItems\<close>: the filters never have the name
  \<^verbatim>\<open>X-Emby-Token\<close>, so the token of the first request, if it had one, is the last
  parameter, and \<^verbatim>\<open>set\<close> puts the new token in its place.\<close>

lemma sp_set_subset: "set (sp_set k v ps) \<subseteq> insert (k, v) (set ps)"
  by (induction ps) (auto split: if_splits)

lemma sp_set_fresh: "k \<notin> fst ` set ps \<Longrightarrow> sp_set k v ps = ps @ [(k, v)]"
  by (induction ps) auto

lemma sp_set_last: "k \<notin> fst ` set ps \<Longrightarrow> sp_set k v (ps @ [(k, v0)]) = ps @ [(k, v)]"
  by (induction ps) auto

lemma sp_set_keys: "fst ` set (sp_set k v ps) \<subseteq> insert k (fst ` set ps)"
proof
  fix a
  assume "a \<in> fst ` set (sp_set k v ps)"
  then obtain b where "(a, b) \<in> set (sp_set k v ps)" by auto
  with sp_set_subset [of k v ps] have "(a, b) = (k, v) \<or> (a, b) \<in> set ps" by auto
  then show "a \<in> insert k (fst ` set ps)" by force
qed

lemma set_if_truthy_within:
  assumes "fst ` set ps \<subseteq> K" and "k \<in> K"
  shows "fst ` set (set_if_truthy k v ps) \<subseteq> K"
proof (cases "truthy (of_opt v)")
  case True
  have "fst ` set (sp_set k (to_string (of_opt v)) ps) \<subseteq> insert k (fst ` set ps)"
    by (rule sp_set_keys)
  also have "\<dots> \<subseteq> K" using assms by simp
  finally show ?thesis using True by (simp add: set_if_truthy_def)
next
  case False
  with assms show ?thesis by (simp add: set_if_truthy_def)
qed

lemma set_if_defined_within:
  assumes "fst ` set ps \<subseteq> K" and "k \<in> K"
  shows "fst ` set (set_if_defined k v ps) \<subseteq> K"
proof (cases v)
  case None
  with assms show ?thesis by (simp add: set_if_defined_def)
next
  case (Some x)
  have "fst ` set (sp_set k x ps) \<subseteq> insert k (fst ` set ps)"
    by (rule sp_set_keys)
  also have "\<dots> \<subseteq> K" using assms by simp
  finally show ?thesis using Some by (simp add: set_if_defined_def)
qed

lemma items_filters_keys:
  "fst ` set (items_filters params) \<subseteq>
     {''ParentId'', ''IncludeItemTypes'', ''Recursive'', ''Fields'', ''SortBy'', ''SortOrder'',
      ''StartIndex'', ''Limit'', ''searchTerm''}"
  unfolding items_filters_def Let_def
  by (intro set_if_truthy_within set_if_defined_within) simp_all

lemma items_filters_no_token: "''X-Emby-Token'' \<notin> fst ` set (items_filters params)"
  using items_filters_keys [of params] by auto

lemma getItems_retryParams_explicit:
  "getItems_retryParams params s (s\<lparr>authToken := tok, userId := uid\<rparr>) =
     items_filters params @ [(''X-Emby-Token'', to_string tok)]"
  using items_filters_no_token [of params]
  by (simp add: getItems_retryParams_def getItems_searchParams_def Let_def sp_set_fresh
      sp_set_last)

lemma retry_request_explicit:
  "retry_request op s (s\<lparr>authToken := tok, userId := uid\<rparr>) =
     get_request
       (case op of
          GetItems params \<Rightarrow>
            serverUrl s @ ''/Users/'' @ to_string uid @ ''/Items?''
              @ sp_toString (items_filters params @ [(''X-Emby-Token'', to_string tok)])
        | GetItem itemId \<Rightarrow>
            serverUrl s @ ''/Users/'' @ to_string uid @ ''/Items/'' @ itemId
              @ ''?Fields=MediaSources''
              @ (if truthy tok then ''&api_key='' @ to_string tok else [])
        | GetSeasons seriesId \<Rightarrow>
            serverUrl s @ ''/Shows/'' @ seriesId @ ''/Seasons?userId='' @ to_string uid
              @ (if truthy tok then ''&api_key='' @ to_string tok else [])
        | GetEpisodes seriesId seasonId \<Rightarrow>
            serverUrl s @ ''/Shows/'' @ seriesId @ ''/Episodes?''
              @ sp_toString
                  ([(''userId'', to_string uid), (''Fields'', ''MediaSources'')]
                   @ (case seasonId of
                        None \<Rightarrow> []
                      | Some sid \<Rightarrow> if sid = [] then [] else [(''seasonId'', sid)])
                   @ (if truthy tok then [(''api_key'', to_string tok)] else [])))"
proof (cases op)
  case (GetItems params)
  then show ?thesis
    by (simp add: getItems_retryParams_explicit getItems_url_def)
next
  case (GetItem itemId)
  then show ?thesis by (simp add: getItem_url_def api_key_suffix_def)
next
  case (GetSeasons seriesId)
  then show ?thesis by (simp add: getSeasons_url_def api_key_suffix_def)
next
  case (GetEpisodes seriesId seasonId)
  then show ?thesis
    by (simp add: getEpisodes_url_def getEpisodes_searchParams_def set_if_truthy_def Let_def
        split: option.splits)
qed

lemma credentials_Some:
  "username s = Some u \<Longrightarrow> u \<noteq> [] \<Longrightarrow> password s = Some p \<Longrightarrow> p \<noteq> [] \<Longrightarrow>
   credentials s = Some (u, p)"
  by (simp add: credentials_def)

lemma credentials_None:
  "\<not> (truthy (of_opt (username s)) \<and> truthy (of_opt (password s))) \<Longrightarrow> credentials s = None"
  by (cases "username s"; cases "password s") (auto simp: credentials_def)

lemma cached_session_facts:
  "username cached_session = Some ''alice''" "''alice'' \<noteq> []"
  "password cached_session = Some ''secret''" "''secret'' \<noteq> []"
  "\<not> truthy (of_opt (apiKey cached_session))"
  "truthy (authToken cached_session)"
  "truthy (userId cached_session)"
  by (simp_all add: cached_session_def)

section \<open>Sessions with an API key\<close>

text \<open>
  C5. In a session whose API key is set (a non-empty string), whatever the user name
  and password, \<^verbatim>\<open>ensureAuthenticated\<close> returns without a call and without
  changing the session; each data operation makes at most its one data call and takes
  the response to it, a 401 included, as final; and neither these operations nor
  \<^verbatim>\<open>getCurrentUser\<close> nor \<^verbatim>\<open>checkConnectivity\<close> add a call of the login
  endpoint to the log.
\<close>

theorem apiKey_never_logs_in:
  assumes "truthy (of_opt (apiKey s))"
  shows "ensureAuthenticated srv s log = (Inr (), s, log)
       \<and> snd (run_op srv op s log) = (s, if truthy (userId s) then log @ [first_request op s] else log)
       \<and> (truthy (userId s) \<and> srv log (first_request op s) = Response r \<longrightarrow>
            run_op srv op s log = (finish op r, s, log @ [first_request op s]))
       \<and> login_calls s (snd (snd (run_op srv op s log))) = login_calls s log
       \<and> login_calls s (snd (snd (getCurrentUser srv s log))) = login_calls s log
       \<and> login_calls s (snd (snd (checkConnectivity srv s log))) = login_calls s log"
proof -
  have ea: "ensureAuthenticated srv s log = (Inr (), s, log)"
    using assms by (simp add: ensureAuthenticated_def)
  have nouid: "run_op srv op s log = (Inl (Error label_no_user_id), s, log)"
    if "\<not> truthy (userId s)"
    using that ea by (simp add: run_op_unfold)
  have sn: "snd (run_op srv op s log) =
      (s, if truthy (userId s) then log @ [first_request op s] else log)"
    using nouid run_op_apiKey [OF assms, of srv op log] by (cases "truthy (userId s)") simp_all
  have one: "run_op srv op s log = (finish op r, s, log @ [first_request op s])"
    if "truthy (userId s) \<and> srv log (first_request op s) = Response r"
    using that run_op_apiKey [OF assms, of srv op log] by simp
  have c1: "login_calls s (snd (snd (run_op srv op s log))) = login_calls s log"
    using sn by (simp add: login_calls_append_GET first_request_GET)
  have c2: "login_calls s (snd (snd (getCurrentUser srv s log))) = login_calls s log"
    by (simp add: getCurrentUser_def Let_def fetch_eq login_calls_append_GET split: outcome.splits)
  have c3: "login_calls s (snd (snd (checkConnectivity srv s log))) = login_calls s log"
    by (simp add: checkConnectivity_def checkConnectivity_try_def fetch_eq get_request_def
        login_calls_append_GET split: outcome.splits)
  from ea sn one c1 c2 c3 show ?thesis by blast
qed

lemma run_key_session:
  "run_op expired (GetItem ''i1'') key_session [] =
     (Inl (Error label_getItem), key_session,
      [get_request ''http://host:8096/emby/Users/u1/Items/i1?Fields=MediaSources&api_key=key''])"
  by (simp add: example_defs client_defs)

text \<open>
  On the example: a session with an API key and credentials, against a server that
  answers every data call with 401.
\<close>

theorem apiKey_never_logs_in_witness:
  "ensureAuthenticated expired key_session [] = (Inr (), key_session, [])
   \<and> run_op expired (GetItem ''i1'') key_session [] =
       (Inl (Error label_getItem), key_session,
        [get_request ''http://host:8096/emby/Users/u1/Items/i1?Fields=MediaSources&api_key=key''])
   \<and> login_calls key_session (snd (snd (run_op expired (GetItem ''i1'') key_session []))) = 0
   \<and> login_calls key_session (snd (snd (getCurrentUser expired key_session []))) = 0
   \<and> login_calls key_session (snd (snd (checkConnectivity expired key_session []))) = 0"
proof -
  have k: "truthy (of_opt (apiKey key_session))" by (simp add: key_session_def)
  note all = apiKey_never_logs_in [where srv = expired and log = "[]"
      and op = "GetItem ''i1''", OF k]
  note gate = all [THEN conjunct1]
  note counts = all [THEN conjunct2, THEN conjunct2, THEN conjunct2]
  from gate counts show ?thesis by (simp add: run_key_session login_calls_def del: run_op.simps)
qed

section \<open>The connectivity probe\<close>

text \<open>
  C7. \<^verbatim>\<open>checkConnectivity\<close> never throws, in any session and against any server:
  it makes one call of the public status endpoint and returns \<^verbatim>\<open>true\<close> exactly when
  the response is a success, and \<^verbatim>\<open>false\<close> when the transport rejects.
\<close>

theorem checkConnectivity_never_throws:
  "checkConnectivity srv s log =
     (Inr (case srv log (get_request (checkConnectivity_url s)) of
             Rejected m \<Rightarrow> False
           | Response r \<Rightarrow> ok r),
      s, log @ [get_request (checkConnectivity_url s)])"
  by (simp add: checkConnectivity_def checkConnectivity_try_def fetch_eq split: outcome.splits)

section \<open>Sessions without a usable credential\<close>

text \<open>
  C2, as the claim states it, fails: in a session with no API key, no token and no
  user name and password, \<^verbatim>\<open>ensureAuthenticated\<close> returns normally, and with a
  user id configured \<^verbatim>\<open>getItem\<close> goes on to make its call, without a credential.
\<close>

theorem no_credential_counterexample:
  "ensureAuthenticated offline empty_session [] = (Inr (), empty_session, [])
   \<and> ensureAuthenticated offline anonymous_session [] = (Inr (), anonymous_session, [])
   \<and> calls_of [] (run_op offline (GetItem ''i1'') anonymous_session []) =
       [get_request ''http://host:8096/emby/Users/u1/Items/i1?Fields=MediaSources'']"
  by (simp add: example_defs client_defs calls_of_def)

text \<open>
  C2, amended. In a session with no API key, no token and not both a user name and a
  password, \<^verbatim>\<open>ensureAuthenticated\<close> returns normally, makes no call and leaves the
  session as it was. A data operation then fails at once, without a call, with the
  configuration error of the missing user id when the user id is missing as well; with
  a user id it makes its first call.
\<close>

theorem no_credential_amended:
  assumes "\<not> truthy (of_opt (apiKey s))" and "\<not> truthy (authToken s)"
    and both: "\<not> (truthy (of_opt (username s)) \<and> truthy (of_opt (password s)))"
  shows "ensureAuthenticated srv s log = (Inr (), s, log)
       \<and> (\<not> truthy (userId s) \<longrightarrow>
            run_op srv op s log = (Inl (Error label_no_user_id), s, log))
       \<and> (truthy (userId s) \<longrightarrow>
            snd (run_op srv op s log) = (s, log @ [first_request op s]))"
proof -
  note none = credentials_None [OF both]
  have ea: "ensureAuthenticated srv s log = (Inr (), s, log)"
    using assms none by (simp add: ensureAuthenticated_def)
  have a: "run_op srv op s log = (Inl (Error label_no_user_id), s, log)"
    if "\<not> truthy (userId s)"
    using that ea by (simp add: run_op_unfold)
  have b: "snd (run_op srv op s log) = (s, log @ [first_request op s])" if "truthy (userId s)"
    using that ea none
    by (simp add: run_op_unfold reauth_credentials_def split: outcome.splits)
  from ea a b show ?thesis by blast
qed

theorem no_credential_amended_witness:
  "ensureAuthenticated expired empty_session [] = (Inr (), empty_session, [])
   \<and> run_op expired (GetSeasons ''s1'') empty_session [] =
       (Inl (Error label_no_user_id), empty_session, [])
   \<and> snd (run_op expired (GetSeasons ''s1'') anonymous_session []) =
       (anonymous_session, [get_request ''http://host:8096/emby/Shows/s1/Seasons?userId=u1''])"
proof -
  have e: "\<not> truthy (of_opt (apiKey empty_session))" "\<not> truthy (authToken empty_session)"
    "\<not> (truthy (of_opt (username empty_session)) \<and> truthy (of_opt (password empty_session)))"
    by (simp_all add: empty_session_def)
  have a: "\<not> truthy (of_opt (apiKey anonymous_session))" "\<not> truthy (authToken anonymous_session)"
    "\<not> (truthy (of_opt (username anonymous_session))
        \<and> truthy (of_opt (password anonymous_session)))"
    by (simp_all add: anonymous_session_def)
  have ue: "\<not> truthy (userId empty_session)" by (simp add: empty_session_def)
  have ua: "truthy (userId anonymous_session)" by (simp add: anonymous_session_def)
  have rq: "first_request (GetSeasons ''s1'') anonymous_session =
      get_request ''http://host:8096/emby/Shows/s1/Seasons?userId=u1''"
    by (simp add: anonymous_session_def client_defs)
  note empty = no_credential_amended [where srv = expired and log = "[]"
      and op = "GetSeasons ''s1''", OF e]
  note anon = no_credential_amended [where srv = expired and log = "[]"
      and op = "GetSeasons ''s1''", OF a]
  note gate = empty [THEN conjunct1]
  note nouser = empty [THEN conjunct2, THEN conjunct1, THEN mp, OF ue]
  note called = anon [THEN conjunct2, THEN conjunct2, THEN mp, OF ua]
  from gate nouser called rq show ?thesis by (simp del: run_op.simps first_request.simps)
qed

section \<open>The error of a failed data operation\<close>





section \<open>A body without Items\<close>

text \<open>
  C3, as the claim states it, fails: on a successful response whose body has no
  \<^verbatim>\<open>Items\<close>, \<^verbatim>\<open>getItems\<close> returns the body as it is, with the field
  absent.
\<close>

theorem missing_Items_counterexample:
  "itemless [] (first_request (GetItems no_filters) cached_session) =
     reply 200 no_items_text (Some (JObj [(''TotalRecordCount'', JNum ''0'')]))
   \<and> get_prop (JV (JObj [(''TotalRecordCount'', JNum ''0'')])) ''Items'' = Inr Undefined
   \<and> fst (run_op itemless (GetItems no_filters) cached_session []) =
       Inr (JV (JObj [(''TotalRecordCount'', JNum ''0'')]))"
  by (simp add: example_defs client_defs)

text \<open>
  C3, amended. When the final response is a success and its JSON body is not
  \<^verbatim>\<open>null\<close> and has no \<^verbatim>\<open>Items\<close>, \<^verbatim>\<open>getSeasons\<close> and
  \<^verbatim>\<open>getEpisodes\<close> return the empty array; \<^verbatim>\<open>getItems\<close> (like
  \<^verbatim>\<open>getItem\<close>) returns the parsed body unchanged.
\<close>

theorem missing_Items_amended:
  assumes "run_op srv op s0 log0 = (res, s, log)"
    and "length log0 < length log"
    and "req_method (last log) = GET"
    and "srv (butlast log) (last log) = Response r"
    and "ok r" and "body_json r = Some d" and "get_prop (JV d) ''Items'' = Inr Undefined"
  shows "res =
     (case op of
        GetItems params \<Rightarrow> Inr (JV d)
      | GetItem itemId \<Rightarrow> Inr (JV d)
      | GetSeasons seriesId \<Rightarrow> Inr (JV (JArr []))
      | GetEpisodes seriesId seasonId \<Rightarrow> Inr (JV (JArr [])))"
  using final_response [OF assms(1-3)] assms(4) finish_no_Items [OF assms(5-7), of op] by simp

lemma run_itemless_getSeasons:
  "run_op itemless (GetSeasons ''s1'') cached_session [] =
     (Inr (JV (JArr [])), cached_session,
      [get_request ''http://host:8096/emby/Shows/s1/Seasons?userId=u1&api_key=old''])"
  by (simp add: example_defs client_defs)

theorem missing_Items_amended_witness:
  "fst (run_op itemless (GetSeasons ''s1'') cached_session []) = Inr (JV (JArr []))"
proof -
  let ?out = "run_op itemless (GetSeasons ''s1'') cached_session []"
  have run: "?out = (fst ?out, fst (snd ?out), snd (snd ?out))" by simp
  have made: "length ([] :: request list) < length (snd (snd ?out))"
    by (simp add: run_itemless_getSeasons del: run_op.simps)
  have data: "req_method (last (snd (snd ?out))) = GET"
    by (simp add: run_itemless_getSeasons get_request_def del: run_op.simps)
  have final: "itemless (butlast (snd (snd ?out))) (last (snd (snd ?out))) =
      Response \<lparr> status = 200, body_text = no_items_text, body_json = Some no_items_body \<rparr>"
    by (simp only: run_itemless_getSeasons) (simp add: example_defs get_request_def)
  have good: "ok \<lparr> status = 200, body_text = no_items_text, body_json = Some no_items_body \<rparr>"
    by (simp add: ok_def)
  have body: "body_json \<lparr> status = 200, body_text = no_items_text,
      body_json = Some no_items_body \<rparr> = Some no_items_body"
    by simp
  have lacks: "get_prop (JV no_items_body) ''Items'' = Inr Undefined"
    by (simp add: no_items_body_def)
  from missing_Items_amended [where srv = itemless, OF run made data final good body lacks]
  show ?thesis by (simp del: run_op.simps)
qed

section \<open>The retry after a 401\<close>

text \<open>
  C1, as the claim states it, fails. With no token cached, \<^verbatim>\<open>ensureAuthenticated\<close>
  logs in before the first data call, so that a 401 on that call leads to a second login;
  and when the login after the 401 is denied, the operation ends after one data call.
\<close>

theorem retry_once_counterexample:
  "expired [login_request fresh_session ''alice'' ''secret'']
     (get_request ''http://host:8096/emby/Users/u2/Items/i1?Fields=MediaSources&api_key=new'') =
     reply 401 ''Unauthorized'' None
   \<and> calls_of [] (run_op expired (GetItem ''i1'') fresh_session []) =
       [login_request fresh_session ''alice'' ''secret'',
        get_request ''http://host:8096/emby/Users/u2/Items/i1?Fields=MediaSources&api_key=new'',
        login_request fresh_session ''alice'' ''secret'',
        get_request ''http://host:8096/emby/Users/u2/Items/i1?Fields=MediaSources&api_key=new'']
   \<and> login_calls fresh_session (calls_of [] (run_op expired (GetItem ''i1'') fresh_session [])) = 2
   \<and> locked_out []
       (get_request ''http://host:8096/emby/Users/u1/Items/i1?Fields=MediaSources&api_key=old'') =
       reply 401 ''Unauthorized'' None
   \<and> calls_of [] (run_op locked_out (GetItem ''i1'') cached_session []) =
       [get_request ''http://host:8096/emby/Users/u1/Items/i1?Fields=MediaSources&api_key=old'',
        login_request cached_session ''alice'' ''secret'']
   \<and> data_calls cached_session (calls_of [] (run_op locked_out (GetItem ''i1'') cached_session [])) = 1"
  by (simp add: example_defs client_defs calls_of_def login_calls_def data_calls_def
      is_login_call_def)

text \<open>
  C1, amended. Take a session with user name and password and no API key, and a data
  operation that passes \<^verbatim>\<open>ensureAuthenticated\<close> and whose first data response has
  status 401. \<^verbatim>\<open>ensureAuthenticated\<close> has made no call when a token was cached and
  one login call when none was. After the 401 the operation calls the login endpoint
  exactly once. When that login fails, the operation fails with the login's error after
  its one data call. When that login succeeds, with token \<open>tok\<close> and user id \<open>uid\<close> in
  the body it returned, the session holds the two, the operation has made exactly two
  data calls, and the second is the request written out below with \<open>tok\<close> and \<open>uid\<close>;
  the result is made of the response to it alone, and a response that is not a success
  is an error: there is no third data call and no further login.
\<close>

theorem retry_once_amended:
  fixes op :: data_op and s_start :: session and second :: "jsval \<Rightarrow> jsval \<Rightarrow> request"
  defines "second \<equiv> \<lambda>tok uid.
     get_request
       (case op of
          GetItems params \<Rightarrow>
            serverUrl s_start @ ''/Users/'' @ to_string uid @ ''/Items?''
              @ sp_toString (items_filters params @ [(''X-Emby-Token'', to_string tok)])
        | GetItem itemId \<Rightarrow>
            serverUrl s_start @ ''/Users/'' @ to_string uid @ ''/Items/'' @ itemId
              @ ''?Fields=MediaSources''
              @ (if truthy tok then ''&api_key='' @ to_string tok else [])
        | GetSeasons seriesId \<Rightarrow>
            serverUrl s_start @ ''/Shows/'' @ seriesId @ ''/Seasons?userId='' @ to_string uid
              @ (if truthy tok then ''&api_key='' @ to_string tok else [])
        | GetEpisodes seriesId seasonId \<Rightarrow>
            serverUrl s_start @ ''/Shows/'' @ seriesId @ ''/Episodes?''
              @ sp_toString
                  ([(''userId'', to_string uid), (''Fields'', ''MediaSources'')]
                   @ (case seasonId of
                        None \<Rightarrow> []
                      | Some sid \<Rightarrow> if sid = [] then [] else [(''seasonId'', sid)])
                   @ (if truthy tok then [(''api_key'', to_string tok)] else [])))"
  assumes user: "username s_start = Some u" "u \<noteq> []" and pass: "password s_start = Some p" "p \<noteq> []"
    and nokey: "\<not> truthy (of_opt (apiKey s_start))"
    and gate: "ensureAuthenticated srv s_start log_start = (Inr (), s, log)"
    and uid: "truthy (userId s)"
    and first: "srv log (first_request op s) = Response r1" and unauth: "status r1 = 401"
  shows "log = log_start @ (if truthy (authToken s_start) then [] else [login_request s_start u p])
       \<and> login_calls s_start (calls_of log (run_op srv op s_start log_start)) = 1
       \<and> login_calls s_start (calls_of log_start (run_op srv op s_start log_start)) =
           (if truthy (authToken s_start) then 1 else 2)
       \<and> (\<forall>e s2 log2.
            authenticate srv u p s (log @ [first_request op s]) = (Inl e, s2, log2) \<longrightarrow>
            run_op srv op s_start log_start =
              (Inl e, s2, log @ [first_request op s, login_request s_start u p])
          \<and> data_calls s_start (calls_of log_start (run_op srv op s_start log_start)) = 1)
       \<and> (\<forall>d s2 log2.
            authenticate srv u p s (log @ [first_request op s]) = (Inr d, s2, log2) \<longrightarrow>
            (\<exists>tok usr uid.
                get_prop (JV d) ''AccessToken'' = Inr tok
              \<and> get_prop (JV d) ''User'' = Inr usr \<and> get_prop usr ''Id'' = Inr uid
              \<and> s2 = s\<lparr>authToken := tok, userId := uid\<rparr>
              \<and> run_op srv op s_start log_start =
                  (case srv (log @ [first_request op s, login_request s_start u p]) (second tok uid) of
                     Rejected m \<Rightarrow> Inl (FetchRejected m)
                   | Response r2 \<Rightarrow> finish op r2,
                   s2, log @ [first_request op s, login_request s_start u p, second tok uid])
              \<and> calls_of log (run_op srv op s_start log_start) =
                  [first_request op s, login_request s_start u p, second tok uid]
              \<and> data_calls s_start (calls_of log_start (run_op srv op s_start log_start)) = 2
              \<and> (\<forall>r2. srv (log @ [first_request op s, login_request s_start u p]) (second tok uid)
                         = Response r2 \<and> \<not> ok r2 \<longrightarrow>
                     (\<exists>msg. fst (run_op srv op s_start log_start) = Inl (Error msg)))))"
proof -
  note creds = credentials_Some [OF user pass]
  note eq = run_op_retry [where srv = srv and log = log, OF creds nokey gate uid first unauth]
  note gl = gate_log [OF creds nokey gate]
  have su: "serverUrl s = serverUrl s_start"
    using ensureAuthenticated_keeps [OF gate] by simp
  have lg: "is_login_call s_start (login_request s_start u p)"
    by (simp add: is_login_call_def login_request_def)
  have f: "\<not> is_login_call s_start (first_request op s)"
    by (simp add: is_login_call_def first_request_GET)
  have r: "\<not> is_login_call s_start (retry_request op s s2)" for s2
    by (simp add: is_login_call_def retry_request_GET)
  have ex: "retry_request op s (s\<lparr>authToken := tok, userId := uid\<rparr>) = second tok uid"
    for tok uid
    unfolding second_def retry_request_explicit su ..
  obtain ra s2 log2 where au: "authenticate srv u p s (log @ [first_request op s]) = (ra, s2, log2)"
    by (cases "authenticate srv u p s (log @ [first_request op s])")
  have after: "login_calls s_start (calls_of log (run_op srv op s_start log_start)) = 1"
    using eq au lg f r by (cases ra) (simp_all add: calls_of_def login_calls_def)
  have total: "login_calls s_start (calls_of log_start (run_op srv op s_start log_start)) =
      (if truthy (authToken s_start) then 1 else 2)"
    using eq au lg f r gl by (cases ra) (simp_all add: calls_of_def login_calls_def)
  have fail: "run_op srv op s_start log_start =
              (Inl e, s2', log @ [first_request op s, login_request s_start u p])
          \<and> data_calls s_start (calls_of log_start (run_op srv op s_start log_start)) = 1"
    if "authenticate srv u p s (log @ [first_request op s]) = (Inl e, s2', log2')" for e s2' log2'
    using eq that lg f gl by (simp add: calls_of_def data_calls_def)
  have succ: "\<exists>tok usr uid.
                get_prop (JV d) ''AccessToken'' = Inr tok
              \<and> get_prop (JV d) ''User'' = Inr usr \<and> get_prop usr ''Id'' = Inr uid
              \<and> s2' = s\<lparr>authToken := tok, userId := uid\<rparr>
              \<and> run_op srv op s_start log_start =
                  (case srv (log @ [first_request op s, login_request s_start u p]) (second tok uid) of
                     Rejected m \<Rightarrow> Inl (FetchRejected m)
                   | Response r2 \<Rightarrow> finish op r2,
                   s2', log @ [first_request op s, login_request s_start u p, second tok uid])
              \<and> calls_of log (run_op srv op s_start log_start) =
                  [first_request op s, login_request s_start u p, second tok uid]
              \<and> data_calls s_start (calls_of log_start (run_op srv op s_start log_start)) = 2
              \<and> (\<forall>r2. srv (log @ [first_request op s, login_request s_start u p]) (second tok uid)
                         = Response r2 \<and> \<not> ok r2 \<longrightarrow>
                     (\<exists>msg. fst (run_op srv op s_start log_start) = Inl (Error msg)))"
    if a: "authenticate srv u p s (log @ [first_request op s]) = (Inr d, s2', log2')" for d s2' log2'
  proof -
    from a have "store_auth d s = (Inr (), s2')" by (simp add: authenticate_Inr) blast
    then obtain tok usr uid where g: "get_prop (JV d) ''AccessToken'' = Inr tok"
        "get_prop (JV d) ''User'' = Inr usr" "get_prop usr ''Id'' = Inr uid"
      and s2': "s2' = s\<lparr>authToken := tok, userId := uid\<rparr>"
      by (auto simp: store_auth_Inr)
    have rq: "retry_request op s s2' = second tok uid"
      unfolding s2' by (rule ex)
    from eq a have run: "run_op srv op s_start log_start =
      (case srv (log @ [first_request op s, login_request s_start u p]) (second tok uid) of
             Rejected m \<Rightarrow> Inl (FetchRejected m)
           | Response r2 \<Rightarrow> finish op r2,
           s2', log @ [first_request op s, login_request s_start u p, second tok uid])"
      by (simp add: rq)
    have c: "calls_of log (run_op srv op s_start log_start) =
              [first_request op s, login_request s_start u p, second tok uid]"
      by (simp add: run calls_of_def)
    have dc: "data_calls s_start (calls_of log_start (run_op srv op s_start log_start)) = 2"
      using lg f r [of s2'] gl by (simp add: run rq [symmetric] calls_of_def data_calls_def)
    have hard: "\<exists>msg. fst (run_op srv op s_start log_start) = Inl (Error msg)"
      if "srv (log @ [first_request op s, login_request s_start u p]) (second tok uid)
                     = Response r2 \<and> \<not> ok r2" for r2
      using that finish_not_ok [of r2 op] by (simp add: run)
    from g s2' run c dc hard show ?thesis by blast
  qed
  from gl after total fail succ show ?thesis by blast
qed

text \<open>
  On the examples, against a server that accepts every login and answers every data call
  with 401: \<^verbatim>\<open>getItem\<close> in a session with a cached token, and \<^verbatim>\<open>getItems\<close> in
  one without.
\<close>

lemma run_expired_getItem:
  "run_op expired (GetItem ''i1'') cached_session [] =
     (Inl (Error label_getItem),
      cached_session\<lparr>authToken := JV (JStr ''new''), userId := JV (JStr ''u2'')\<rparr>,
      [get_request ''http://host:8096/emby/Users/u1/Items/i1?Fields=MediaSources&api_key=old'',
       login_request cached_session ''alice'' ''secret'',
       get_request ''http://host:8096/emby/Users/u2/Items/i1?Fields=MediaSources&api_key=new''])"
  by (simp add: example_defs client_defs)

lemma run_expired_getItems_fresh:
  "run_op expired (GetItems no_filters) fresh_session [] =
     (Inl (Error (label_getItems @ '' (401): Unauthorized'')),
      fresh_session\<lparr>authToken := JV (JStr ''new''), userId := JV (JStr ''u2'')\<rparr>,
      [login_request fresh_session ''alice'' ''secret'',
       get_request ''http://host:8096/emby/Users/u2/Items?X-Emby-Token=new'',
       login_request fresh_session ''alice'' ''secret'',
       get_request ''http://host:8096/emby/Users/u2/Items?X-Emby-Token=new''])"
  by (simp add: example_defs client_defs show_nat.simps)

theorem retry_once_amended_witness:
  "login_calls cached_session (calls_of [] (run_op expired (GetItem ''i1'') cached_session [])) = 1
   \<and> data_calls cached_session (calls_of [] (run_op expired (GetItem ''i1'') cached_session [])) = 2
   \<and> calls_of [] (run_op expired (GetItem ''i1'') cached_session []) =
       [get_request ''http://host:8096/emby/Users/u1/Items/i1?Fields=MediaSources&api_key=old'',
        login_request cached_session ''alice'' ''secret'',
        get_request ''http://host:8096/emby/Users/u2/Items/i1?Fields=MediaSources&api_key=new'']
   \<and> fst (run_op expired (GetItem ''i1'') cached_session []) = Inl (Error label_getItem)
   \<and> login_calls fresh_session
       (calls_of [] (run_op expired (GetItems no_filters) fresh_session [])) = 2
   \<and> data_calls fresh_session
       (calls_of [] (run_op expired (GetItems no_filters) fresh_session [])) = 2"
proof -
  have st: "status \<lparr> status = 401, body_text = ''Unauthorized'', body_json = None \<rparr> = 401"
    by simp
  have gate: "ensureAuthenticated expired cached_session [] = (Inr (), cached_session, [])"
    by (simp add: ensureAuthenticated_def cached_session_def)
  have first: "expired [] (first_request (GetItem ''i1'') cached_session) =
      Response \<lparr> status = 401, body_text = ''Unauthorized'', body_json = None \<rparr>"
    by (simp add: example_defs get_request_def)
  have au: "authenticate expired ''alice'' ''secret'' cached_session
        ([] @ [first_request (GetItem ''i1'') cached_session]) =
      (Inr login_body,
       cached_session\<lparr>authToken := JV (JStr ''new''), userId := JV (JStr ''u2'')\<rparr>,
       [first_request (GetItem ''i1'') cached_session,
        login_request cached_session ''alice'' ''secret''])"
    by (simp add: example_defs client_defs)
  note cached = retry_once_amended [where srv = expired and log = "[]" and log_start = "[]"
      and op = "GetItem ''i1''" and s = cached_session,
      OF cached_session_facts(1-5) gate cached_session_facts(7) first st]
  have c1: "login_calls cached_session
      (calls_of [] (run_op expired (GetItem ''i1'') cached_session [])) = 1"
    using cached [THEN conjunct2, THEN conjunct1] .
  from cached [THEN conjunct2, THEN conjunct2, THEN conjunct2, THEN conjunct2,
      THEN spec, THEN spec, THEN spec, THEN mp, OF au]
  have c2: "data_calls cached_session
      (calls_of [] (run_op expired (GetItem ''i1'') cached_session [])) = 2"
    by blast
  let ?s1 = "fresh_session\<lparr>authToken := JV (JStr ''new''), userId := JV (JStr ''u2'')\<rparr>"
  have fresh_facts: "username fresh_session = Some ''alice''" "''alice'' \<noteq> []"
    "password fresh_session = Some ''secret''" "''secret'' \<noteq> []"
    "\<not> truthy (of_opt (apiKey fresh_session))"
    by (simp_all add: fresh_session_def)
  have gate2: "ensureAuthenticated expired fresh_session [] =
      (Inr (), ?s1, [login_request fresh_session ''alice'' ''secret''])"
    by (simp add: example_defs client_defs)
  have uid2: "truthy (userId ?s1)" by simp
  have first2: "expired [login_request fresh_session ''alice'' ''secret'']
      (first_request (GetItems no_filters) ?s1) =
      Response \<lparr> status = 401, body_text = ''Unauthorized'', body_json = None \<rparr>"
    by (simp add: example_defs get_request_def login_request_def)
  have au2: "authenticate expired ''alice'' ''secret'' ?s1
        ([login_request fresh_session ''alice'' ''secret'']
           @ [first_request (GetItems no_filters) ?s1]) =
      (Inr login_body, ?s1,
       [login_request fresh_session ''alice'' ''secret'',
        first_request (GetItems no_filters) ?s1,
        login_request fresh_session ''alice'' ''secret''])"
    by (simp add: example_defs client_defs)
  note fresh = retry_once_amended [where srv = expired and log_start = "[]"
      and log = "[login_request fresh_session ''alice'' ''secret'']"
      and op = "GetItems no_filters" and s = ?s1,
      OF fresh_facts gate2 uid2 first2 st]
  have t: "\<not> truthy (authToken fresh_session)" by (simp add: fresh_session_def)
  have c3: "login_calls fresh_session
      (calls_of [] (run_op expired (GetItems no_filters) fresh_session [])) = 2"
    using fresh [THEN conjunct2, THEN conjunct2, THEN conjunct1] t by simp
  from fresh [THEN conjunct2, THEN conjunct2, THEN conjunct2, THEN conjunct2,
      THEN spec, THEN spec, THEN spec, THEN mp, OF au2]
  have c4: "data_calls fresh_session
      (calls_of [] (run_op expired (GetItems no_filters) fresh_session [])) = 2"
    by blast
  from c1 c2 c3 c4 show ?thesis
    by (simp add: calls_of_def run_expired_getItem del: run_op.simps)
qed

section \<open>Stream, image and subtitle URLs\<close>

text \<open>
  C10. In a session with no API key and no token, both variants of
  \<^verbatim>\<open>getStreamUrl\<close> end with \<^verbatim>\<open>api_key=undefined\<close>, while the query string of
  \<^verbatim>\<open>getImageUrl\<close> holds the width at most and no \<^verbatim>\<open>api_key\<close> parameter.
\<close>

theorem stream_url_undefined:
  assumes "\<not> truthy (of_opt (apiKey s))" and "authToken s = Undefined"
  shows "getStreamUrl itemId (Some True) s =
           serverUrl s @ ''/Videos/'' @ itemId @ ''/stream?Static=true&api_key=undefined''
       \<and> getStreamUrl itemId None s =
           serverUrl s @ ''/Videos/'' @ itemId @ ''/stream?Static=true&api_key=undefined''
       \<and> getStreamUrl itemId (Some False) s =
           serverUrl s @ ''/Videos/'' @ itemId @ ''/master.m3u8?api_key=undefined''
       \<and> getImageUrl itemId imageType maxWidth s =
           serverUrl s @ ''/Items/'' @ itemId @ ''/Images/''
             @ image_type_name (case imageType of None \<Rightarrow> Primary | Some t \<Rightarrow> t)
             @ (case maxWidth of
                  None \<Rightarrow> []
                | Some w \<Rightarrow>
                    if number_truthy w then ''?maxWidth='' @ urlencode (number_text w) else [])"
proof -
  have t: "current_token s = Undefined"
    using assms by (simp add: current_token_def js_or_def)
  have n: "urlencode ''maxWidth'' = ''maxWidth''"
    by (simp add: urlencode_def encode_char_def unreserved_def)
  have img: "getImageUrl itemId imageType maxWidth s =
           serverUrl s @ ''/Items/'' @ itemId @ ''/Images/''
             @ image_type_name (case imageType of None \<Rightarrow> Primary | Some t \<Rightarrow> t)
             @ (case maxWidth of
                  None \<Rightarrow> []
                | Some w \<Rightarrow>
                    if number_truthy w then ''?maxWidth='' @ urlencode (number_text w) else [])"
    by (simp add: getImageUrl_def t sp_toString_def n split: option.splits)
  show ?thesis
    using img by (simp add: getStreamUrl_def t)
qed

theorem stream_url_undefined_witness:
  "getStreamUrl ''i1'' (Some True) anonymous_session =
     ''http://host:8096/emby/Videos/i1/stream?Static=true&api_key=undefined''
   \<and> getStreamUrl ''i1'' (Some False) anonymous_session =
     ''http://host:8096/emby/Videos/i1/master.m3u8?api_key=undefined''
   \<and> getImageUrl ''i1'' None (Some (Number ''300'')) anonymous_session =
     ''http://host:8096/emby/Items/i1/Images/Primary?maxWidth=300''
   \<and> getImageUrl ''i1'' (Some Logo) (Some (Number ''1e+21'')) anonymous_session =
     ''http://host:8096/emby/Items/i1/Images/Logo?maxWidth=1e%2B21''
   \<and> getImageUrl ''i1'' (Some Backdrop) None anonymous_session =
     ''http://host:8096/emby/Items/i1/Images/Backdrop''"
proof -
  have k: "\<not> truthy (of_opt (apiKey anonymous_session))"
    and t: "authToken anonymous_session = Undefined"
    by (simp_all add: anonymous_session_def)
  have u: "serverUrl anonymous_session = ''http://host:8096/emby''"
    by (simp add: anonymous_session_def)
  have e: "urlencode ''300'' = ''300''" "urlencode ''1e+21'' = ''1e%2B21''"
    by (simp_all add: urlencode_def encode_char_def unreserved_def hex_digit_def)
  from stream_url_undefined [OF k t, of "''i1''" None "Some (Number ''300'')"]
    stream_url_undefined [OF k t, of "''i1''" "Some Logo" "Some (Number ''1e+21'')"]
    stream_url_undefined [OF k t, of "''i1''" "Some Backdrop" None]
  show ?thesis by (simp add: u e)
qed

text \<open>
  C9. \<^verbatim>\<open>getSubtitles\<close> gives one entry for each stream of type
  \<^verbatim>\<open>Subtitle\<close> of the first media source, in order. An external stream with
  delivery URL \<^verbatim>\<open>/sub1.vtt\<close> has the URL \<^verbatim>\<open>{endpoint}/sub1.vtt\<close>, with no
  credential; an embedded stream with index 2 has the URL
  \<^verbatim>\<open>{endpoint}/Videos/{itemId}/{mediaSourceId}/Subtitles/2/Stream.vtt?api_key={token}\<close>.
  The language is \<^verbatim>\<open>unknown\<close> when the stream has none; the label is the display
  title of the stream, or else the language followed by the codec in parentheses.
\<close>

theorem getSubtitles_entries:
  "(MediaSources item = Some (mediaSource # rest) \<and> MediaStreams mediaSource = Some streams \<longrightarrow>
      getSubtitles item s =
        map (subtitle_of s item mediaSource (current_token s))
          (filter (\<lambda>st. Type st = ''Subtitle'') streams)
      \<and> length (getSubtitles item s) = length (filter (\<lambda>st. Type st = ''Subtitle'') streams))
   \<and> (MediaSources item = None \<or> MediaSources item = Some []
        \<or> (MediaSources item = Some (mediaSource # rest) \<and> MediaStreams mediaSource = None) \<longrightarrow>
      getSubtitles item s = [])
   \<and> (IsExternal stream = Some True \<and> DeliveryUrl stream = Some ''/sub1.vtt'' \<longrightarrow>
        url (subtitle_of s item mediaSource (current_token s) stream) =
          serverUrl s @ ''/sub1.vtt'')
   \<and> (IsExternal stream \<noteq> Some True \<and> Index stream = Number ''2'' \<longrightarrow>
        url (subtitle_of s item mediaSource (current_token s) stream) =
          serverUrl s @ ''/Videos/'' @ Id item @ ''/'' @ source_Id mediaSource
            @ ''/Subtitles/2/Stream.vtt?api_key='' @ to_string (current_token s))
   \<and> (IsExternal stream = Some True \<and> truthy (of_opt (DeliveryUrl stream)) \<longrightarrow>
        url (subtitle_of s item mediaSource (current_token s) stream) =
          serverUrl s @ to_string (of_opt (DeliveryUrl stream)))
   \<and> (\<not> (IsExternal stream = Some True \<and> truthy (of_opt (DeliveryUrl stream))) \<longrightarrow>
        url (subtitle_of s item mediaSource (current_token s) stream) =
          serverUrl s @ ''/Videos/'' @ Id item @ ''/'' @ source_Id mediaSource
            @ ''/Subtitles/'' @ number_text (Index stream) @ ''/Stream.vtt?api_key=''
            @ to_string (current_token s))
   \<and> language (subtitle_of s item mediaSource (current_token s) stream) =
        (case Language stream of
           None \<Rightarrow> ''unknown''
         | Some l \<Rightarrow> if l = [] then ''unknown'' else l)
   \<and> label (subtitle_of s item mediaSource (current_token s) stream) =
        (case DisplayTitle stream of
           None \<Rightarrow> language (subtitle_of s item mediaSource (current_token s) stream)
                     @ '' ('' @ to_string (of_opt (Codec stream)) @ '')''
         | Some t \<Rightarrow>
             if t = []
             then language (subtitle_of s item mediaSource (current_token s) stream)
                    @ '' ('' @ to_string (of_opt (Codec stream)) @ '')''
             else t)"
proof -
  have all: "getSubtitles item s =
        map (subtitle_of s item mediaSource (current_token s))
          (filter (\<lambda>st. Type st = ''Subtitle'') streams)
      \<and> length (getSubtitles item s) = length (filter (\<lambda>st. Type st = ''Subtitle'') streams)"
    if "MediaSources item = Some (mediaSource # rest) \<and> MediaStreams mediaSource = Some streams"
    using that by (simp add: getSubtitles_def)
  have none: "getSubtitles item s = []"
    if "MediaSources item = None \<or> MediaSources item = Some []
        \<or> (MediaSources item = Some (mediaSource # rest) \<and> MediaStreams mediaSource = None)"
    using that by (auto simp: getSubtitles_def)
  have extg: "url (subtitle_of s item mediaSource (current_token s) stream) =
          serverUrl s @ to_string (of_opt (DeliveryUrl stream))"
    if "IsExternal stream = Some True \<and> truthy (of_opt (DeliveryUrl stream))"
    using that by (simp add: subtitle_of_def Let_def)
  have embg: "url (subtitle_of s item mediaSource (current_token s) stream) =
          serverUrl s @ ''/Videos/'' @ Id item @ ''/'' @ source_Id mediaSource
            @ ''/Subtitles/'' @ number_text (Index stream) @ ''/Stream.vtt?api_key=''
            @ to_string (current_token s)"
    if "\<not> (IsExternal stream = Some True \<and> truthy (of_opt (DeliveryUrl stream)))"
    using that by (auto simp: subtitle_of_def Let_def)
  have ext: "url (subtitle_of s item mediaSource (current_token s) stream) =
              serverUrl s @ ''/sub1.vtt''"
    if "IsExternal stream = Some True \<and> DeliveryUrl stream = Some ''/sub1.vtt''"
    using that by (simp add: subtitle_of_def Let_def)
  have emb: "url (subtitle_of s item mediaSource (current_token s) stream) =
              serverUrl s @ ''/Videos/'' @ Id item @ ''/'' @ source_Id mediaSource
                @ ''/Subtitles/2/Stream.vtt?api_key='' @ to_string (current_token s)"
    if "IsExternal stream \<noteq> Some True \<and> Index stream = Number ''2''"
    using that by (simp add: subtitle_of_def Let_def)
  have lang: "language (subtitle_of s item mediaSource (current_token s) stream) =
            (case Language stream of
               None \<Rightarrow> ''unknown''
             | Some l \<Rightarrow> if l = [] then ''unknown'' else l)"
    by (simp add: subtitle_of_def Let_def js_or_def split: option.splits)
  have lbl: "label (subtitle_of s item mediaSource (current_token s) stream) =
            (case DisplayTitle stream of
               None \<Rightarrow> language (subtitle_of s item mediaSource (current_token s) stream)
                         @ '' ('' @ to_string (of_opt (Codec stream)) @ '')''
             | Some t \<Rightarrow>
                 if t = []
                 then language (subtitle_of s item mediaSource (current_token s) stream)
                        @ '' ('' @ to_string (of_opt (Codec stream)) @ '')''
                 else t)"
    by (simp add: subtitle_of_def Let_def js_or_def split: option.splits)
  from all none ext emb extg embg lang lbl show ?thesis by blast
qed

theorem getSubtitles_entries_witness:
  "getSubtitles film cached_session =
     [\<lparr> url = ''http://host:8096/emby/sub1.vtt'', language = ''eng'', label = ''English (SRT)'' \<rparr>,
      \<lparr> url = ''http://host:8096/emby/Videos/i1/m1/Subtitles/2/Stream.vtt?api_key=old'',
        language = ''unknown'', label = ''unknown (ass)'' \<rparr>]"
proof -
  have src: "MediaSources film = Some (film_source # [])
      \<and> MediaStreams film_source = Some [audio_stream, external_stream, embedded_stream]"
    by (simp add: film_def film_source_def)
  note all = getSubtitles_entries [where s = cached_session and item = film
      and mediaSource = film_source and rest = "[]"
      and streams = "[audio_stream, external_stream, embedded_stream]"]
  note listed = all [THEN conjunct1, THEN mp, OF src, THEN conjunct1]
  have entries: "getSubtitles film cached_session =
      [subtitle_of cached_session film film_source (current_token cached_session) external_stream,
       subtitle_of cached_session film film_source (current_token cached_session) embedded_stream]"
    using listed by (simp add: audio_stream_def external_stream_def embedded_stream_def)
  show ?thesis
    unfolding entries
    by (simp add: subtitle_of_def external_stream_def embedded_stream_def film_def
        film_source_def cached_session_def current_token_def js_or_def)
qed

end
